theory Spec2Isabelle
  imports Complex_Main
begin

section \<open>Data model (expression.hpp)\<close>

text \<open>
  \<^verbatim>\<open>const_t\<close> is \<^verbatim>\<open>double\<close> in the source. The embedding takes the real numbers for
  it: rounding, infinities and NaN are not modelled, so every statement below is about
  the exact values the program approximates. \<^verbatim>\<open>param_t\<close> is \<^verbatim>\<open>char\<close>.
\<close>

type_synonym const_t = real
type_synonym param_t = char

text \<open>
  What a call can end with instead of a value. The first group are the exceptions the
  source and \<^verbatim>\<open>std::stod\<close> throw, named after their messages. The second group is
  undefined behaviour in C++ (a null \<^verbatim>\<open>shared_ptr\<close> dereferenced, reading through the end
  iterator of a vector, \<^verbatim>\<open>top()\<close> of an empty \<^verbatim>\<open>std::stack\<close>; a \<^verbatim>\<open>double\<close> cast to a
  \<^verbatim>\<open>long\<close> that cannot hold it or an integer remainder by zero, both in the modulus):
  the model makes each a result of its own, so that no theorem silently assumes it away.
\<close>

datatype error =
    Unterminated_parenthesis
  | Closed_parenthesis
  | Unexpected_token string
  | Bad_operator char
  | Bad_parsing
  | No_arguments
  | Unassigned_parameter param_t
  | Found_nothing
  | Out_of_range
  | Stod_out_of_range
  | Null_dereference
  | Past_the_end
  | Empty_stack
  | Undefined_arithmetic

fun thrown :: "error \<Rightarrow> bool" where
  "thrown Null_dereference = False"
| "thrown Past_the_end = False"
| "thrown Empty_stack = False"
| "thrown Undefined_arithmetic = False"
| "thrown _ = True"

text \<open>
  \<^verbatim>\<open>unary_f\<close> and \<^verbatim>\<open>binary_f\<close> are \<^verbatim>\<open>std::function\<close> objects: they are HOL
  functions here, so the closures the optimizer composes are composed functions. A call
  of a binary function can be undefined behaviour (the modulus): a binary function
  returns \<open>None\<close> there.
\<close>

type_synonym unary_f = "const_t \<Rightarrow> const_t"
type_synonym binary_f = "const_t \<Rightarrow> const_t \<Rightarrow> const_t option"

text \<open>\<^verbatim>\<open>variant_t = std::variant<nothing, const_t, param_t, unary_f, binary_f>\<close>.\<close>

datatype variant_t =
    Nothing
  | Const const_t
  | Param param_t
  | Unary unary_f
  | Binary binary_f

text \<open>
  \<^verbatim>\<open>struct node\<close>: the content and two \<^verbatim>\<open>std::shared_ptr<node>\<close>; a null pointer is
  \<open>None\<close>. Within one expression object every node is created by \<^verbatim>\<open>std::make_shared\<close>
  and linked from one place only, so the pointer structure is a tree and is modelled by
  value. Copies of an expression object, which share their nodes, are not modelled.
\<close>

datatype node = Node (content: variant_t) (left: "node option") (right: "node option")

text \<open>\<^verbatim>\<open>class expression\<close>: \<^verbatim>\<open>_head\<close> and \<^verbatim>\<open>_dictionary\<close> (a \<^verbatim>\<open>std::map<char, const_t>\<close>).\<close>

record expression =
  head :: "node option"
  dictionary :: "param_t \<rightharpoonup> const_t"

section \<open>Characters (cctype)\<close>

definition isdigit :: "char \<Rightarrow> bool" where
  "isdigit c = (c \<in> set ''0123456789'')"

text \<open>\<^verbatim>\<open>std::isspace\<close> in the C locale: space, \<^verbatim>\<open>\t \n \v \f \r\<close>.\<close>

definition isspace :: "char \<Rightarrow> bool" where
  "isspace c = (c \<in> set [CHR '' '', CHR 0x09, CHR 0x0A, CHR 0x0B, CHR 0x0C, CHR 0x0D])"

definition tolower :: "char \<Rightarrow> char" where
  "tolower c =
    (case map_of (zip ''ABCDEFGHIJKLMNOPQRSTUVWXYZ'' ''abcdefghijklmnopqrstuvwxyz'') c of
       Some l \<Rightarrow> l
     | None \<Rightarrow> c)"

definition toupper :: "char \<Rightarrow> char" where
  "toupper c =
    (case map_of (zip ''abcdefghijklmnopqrstuvwxyz'' ''ABCDEFGHIJKLMNOPQRSTUVWXYZ'') c of
       Some u \<Rightarrow> u
     | None \<Rightarrow> c)"

section \<open>namespace detail\<close>

fun evalutable :: "node option \<Rightarrow> bool" where
  "evalutable None = False"
| "evalutable (Some (Node (Const v) l r)) = True"
| "evalutable (Some (Node (Binary f) l r)) = (evalutable l \<and> evalutable r)"
| "evalutable (Some (Node (Unary f) l r)) = evalutable l"
| "evalutable (Some (Node c l r)) = False"

definition sign_priority :: "char \<Rightarrow> int" where
  "sign_priority x0 =
    (let x = tolower x0 in
     if x = CHR ''+'' \<or> x = CHR ''-'' then 0
     else if x = CHR ''*'' \<or> x = CHR ''/'' then 1
     else if x = CHR ''^'' then 2
     else if x = CHR ''s'' \<or> x = CHR ''c'' \<or> x = CHR ''t'' \<or> x = CHR ''e''
           \<or> x = CHR ''l'' \<or> x = CHR ''a'' \<or> x = CHR ''v'' then 3
     else - 1)"

definition stronger_sign :: "char \<Rightarrow> char \<Rightarrow> bool" where
  "stronger_sign A B = (sign_priority A > sign_priority B)"

definition is_binary_f :: "char \<Rightarrow> bool" where
  "is_binary_f ch =
    (ch = CHR ''+'' \<or> ch = CHR ''-'' \<or> ch = CHR ''*'' \<or> ch = CHR ''/''
      \<or> ch = CHR ''^'' \<or> ch = CHR ''%'')"

subsection \<open>namespace function\<close>

definition plus_f :: binary_f where "plus_f a b = Some (a + b)"
definition minus_f :: binary_f where "minus_f a b = Some (a - b)"
definition multiplies_f :: binary_f where "multiplies_f a b = Some (a * b)"
definition divides_f :: binary_f where "divides_f a b = Some (a / b)"

text \<open>
  \<^verbatim>\<open>static_cast<long>(a) % static_cast<long>(b)\<close>, with a \<^verbatim>\<open>long\<close> of 64 bits. The cast
  truncates towards zero and is undefined when the truncated value does not fit. \<^verbatim>\<open>%\<close>
  is the remainder of the truncating division, with the sign of the dividend; it is
  undefined when the divisor is 0 and when the quotient does not fit (the least \<^verbatim>\<open>long\<close>
  by -1).
\<close>

definition truncate :: "const_t \<Rightarrow> int" where
  "truncate a = (if 0 \<le> a then \<lfloor>a\<rfloor> else \<lceil>a\<rceil>)"

definition fits_long :: "int \<Rightarrow> bool" where
  "fits_long k = (- (2 ^ 63) \<le> k \<and> k < 2 ^ 63)"

definition static_cast_long :: "const_t \<Rightarrow> int option" where
  "static_cast_long a = (if fits_long (truncate a) then Some (truncate a) else None)"

definition modulus_f :: binary_f where
  "modulus_f a b =
    (case (static_cast_long a, static_cast_long b) of
       (Some k, Some l) \<Rightarrow>
         if l = 0 \<or> (k = - (2 ^ 63) \<and> l = - 1) then None
         else Some (of_int (sgn k * (\<bar>k\<bar> mod \<bar>l\<bar>)))
     | _ \<Rightarrow> None)"

text \<open>
  \<^verbatim>\<open>std::pow\<close>: the integer power for an integral exponent (of any base), the real power
  of a positive base otherwise.
\<close>

definition pow_f :: binary_f where
  "pow_f a b = Some (if b = of_int \<lfloor>b\<rfloor> then a powi \<lfloor>b\<rfloor> else a powr b)"

definition sin_f :: unary_f where "sin_f a = sin a"
definition cos_f :: unary_f where "cos_f a = cos a"
definition tan_f :: unary_f where "tan_f a = tan a"
definition asin_f :: unary_f where "asin_f a = arcsin a"
definition acos_f :: unary_f where "acos_f a = arccos a"
definition atan_f :: unary_f where "atan_f a = arctan a"
definition exp_f :: unary_f where "exp_f a = exp a"
definition ln_f :: unary_f where "ln_f a = ln a"
definition abs_f :: unary_f where "abs_f a = \<bar>a\<bar>"
definition sqrt_f :: unary_f where "sqrt_f a = sqrt a"
definition cbrt_f :: unary_f where "cbrt_f a = root 3 a"

definition sign_to_binary :: "char \<Rightarrow> error + binary_f" where
  "sign_to_binary ch =
    (if ch = CHR ''+'' then Inr plus_f
     else if ch = CHR ''-'' then Inr minus_f
     else if ch = CHR ''*'' then Inr multiplies_f
     else if ch = CHR ''/'' then Inr divides_f
     else if ch = CHR ''^'' then Inr pow_f
     else if ch = CHR ''%'' then Inr modulus_f
     else Inl (Bad_operator ch))"

definition sign_to_unary :: "char \<Rightarrow> error + unary_f" where
  "sign_to_unary ch =
    (if ch = CHR ''s'' then Inr sin_f
     else if ch = CHR ''c'' then Inr cos_f
     else if ch = CHR ''t'' then Inr tan_f
     else if ch = CHR ''S'' then Inr asin_f
     else if ch = CHR ''C'' then Inr acos_f
     else if ch = CHR ''T'' then Inr atan_f
     else if ch = CHR ''l'' then Inr ln_f
     else if ch = CHR ''e'' then Inr exp_f
     else if ch = CHR ''|'' then Inr abs_f
     else if ch = CHR ''v'' then Inr sqrt_f
     else if ch = CHR ''V'' then Inr cbrt_f
     else Inl (Bad_operator ch))"

section \<open>Evaluation\<close>

text \<open>
  The source writes \<^verbatim>\<open>binary(eval_impl(head->right), eval_impl(head->left))\<close>. C++ leaves
  open which of the two arguments is evaluated first, so the order is a parameter of the
  evaluator and of everything that calls it (the call is one place in each overload, so
  a compiled program has one order throughout). When the operand evaluated first fails,
  the other one is not evaluated.
\<close>

datatype operand_order = Right_first | Left_first

text \<open>
  \<open>operands ord a c\<close>: the two operand values, from the result \<open>a\<close> for the right child
  and the result \<open>c\<close> for the left child, or the failure that is met first.
\<close>

definition operands ::
  "operand_order \<Rightarrow> error + const_t \<Rightarrow> error + const_t \<Rightarrow> error + const_t \<times> const_t" where
  "operands ord a c =
    (case ord of
       Right_first \<Rightarrow>
         (case a of
            Inl e \<Rightarrow> Inl e
          | Inr x \<Rightarrow> (case c of Inl e \<Rightarrow> Inl e | Inr y \<Rightarrow> Inr (x, y)))
     | Left_first \<Rightarrow>
         (case c of
            Inl e \<Rightarrow> Inl e
          | Inr y \<Rightarrow> (case a of Inl e \<Rightarrow> Inl e | Inr x \<Rightarrow> Inr (x, y))))"

text \<open>
  \<^verbatim>\<open>expression::eval_impl(head)\<close>. A call of the binary function that is undefined
  behaviour is the result \<open>Undefined_arithmetic\<close>.
\<close>

definition call :: "binary_f \<Rightarrow> const_t \<Rightarrow> const_t \<Rightarrow> error + const_t" where
  "call b a c = (case b a c of None \<Rightarrow> Inl Undefined_arithmetic | Some v \<Rightarrow> Inr v)"

fun eval_impl ::
  "operand_order \<Rightarrow> (param_t \<rightharpoonup> const_t) \<Rightarrow> node option \<Rightarrow> error + const_t" where
  "eval_impl ord dict None = Inl Null_dereference"
| "eval_impl ord dict (Some (Node (Const v) l r)) = Inr v"
| "eval_impl ord dict (Some (Node (Param p) l r)) =
    (case dict p of None \<Rightarrow> Inl (Unassigned_parameter p) | Some v \<Rightarrow> Inr v)"
| "eval_impl ord dict (Some (Node (Unary u) l r)) =
    (case eval_impl ord dict l of Inl e \<Rightarrow> Inl e | Inr a \<Rightarrow> Inr (u a))"
| "eval_impl ord dict (Some (Node (Binary b) l r)) =
    (case operands ord (eval_impl ord dict r) (eval_impl ord dict l) of
       Inl e \<Rightarrow> Inl e
     | Inr (a, c) \<Rightarrow> call b a c)"
| "eval_impl ord dict (Some (Node Nothing l r)) = Inl Found_nothing"

text \<open>\<^verbatim>\<open>expression::eval_impl(head, x, value)\<close>: the overload with one override.\<close>

fun eval_impl_x ::
  "operand_order \<Rightarrow> (param_t \<rightharpoonup> const_t) \<Rightarrow> node option \<Rightarrow> char \<Rightarrow> const_t
    \<Rightarrow> error + const_t" where
  "eval_impl_x ord dict None x val = Inl Null_dereference"
| "eval_impl_x ord dict (Some (Node (Const v) l r)) x val = Inr v"
| "eval_impl_x ord dict (Some (Node (Param p) l r)) x val =
    (if p = x then Inr val
     else case dict p of None \<Rightarrow> Inl (Unassigned_parameter p) | Some v \<Rightarrow> Inr v)"
| "eval_impl_x ord dict (Some (Node (Unary u) l r)) x val =
    (case eval_impl_x ord dict l x val of Inl e \<Rightarrow> Inl e | Inr a \<Rightarrow> Inr (u a))"
| "eval_impl_x ord dict (Some (Node (Binary b) l r)) x val =
    (case operands ord (eval_impl_x ord dict r x val) (eval_impl_x ord dict l x val) of
       Inl e \<Rightarrow> Inl e
     | Inr (a, c) \<Rightarrow> call b a c)"
| "eval_impl_x ord dict (Some (Node Nothing l r)) x val = Inl Found_nothing"

text \<open>
  \<^verbatim>\<open>expression::eval()\<close> and \<^verbatim>\<open>expression::eval(ch, value)\<close>: \<^verbatim>\<open>std::nullopt\<close> when there is
  no tree. Both are \<^verbatim>\<open>const\<close> member functions and write to nothing, so they are functions
  of the object that return the result only.
\<close>

definition eval :: "operand_order \<Rightarrow> expression \<Rightarrow> error + const_t option" where
  "eval ord e =
    (if head e = None then Inr None
     else case eval_impl ord (dictionary e) (head e) of
            Inl err \<Rightarrow> Inl err
          | Inr v \<Rightarrow> Inr (Some v))"

definition eval_x ::
  "operand_order \<Rightarrow> expression \<Rightarrow> char \<Rightarrow> const_t \<Rightarrow> error + const_t option" where
  "eval_x ord e ch val =
    (if head e = None then Inr None
     else case eval_impl_x ord (dictionary e) (head e) ch val of
            Inl err \<Rightarrow> Inl err
          | Inr v \<Rightarrow> Inr (Some v))"

text \<open>\<^verbatim>\<open>expression::set_param\<close>: \<^verbatim>\<open>_dictionary.insert_or_assign(name, value)\<close>.\<close>

definition set_param :: "char \<Rightarrow> const_t \<Rightarrow> expression \<Rightarrow> expression" where
  "set_param name val e = e\<lparr>dictionary := (dictionary e)(name \<mapsto> val)\<rparr>"

section \<open>The resolver\<close>

subsection \<open>expression::preparse\<close>

text \<open>
  \<^verbatim>\<open>std::string::find(ch, pos)\<close>: the first index from \<open>pos\<close> on that holds \<open>ch\<close>;
  \<^verbatim>\<open>npos\<close> is \<open>None\<close>.
\<close>

definition find_char :: "string \<Rightarrow> char \<Rightarrow> nat \<Rightarrow> nat option" where
  "find_char src ch pos = List.find (\<lambda>i. src ! i = ch) [pos ..< length src]"

text \<open>\<^verbatim>\<open>src.insert(i, 1, ch)\<close>.\<close>

definition insert_at :: "string \<Rightarrow> nat \<Rightarrow> char \<Rightarrow> string" where
  "insert_at src i ch = take i src @ ch # drop i src"

text \<open>
  The \<^verbatim>\<open>for\<close> loop of \<^verbatim>\<open>preparse\<close>: the first argument is the loop variable \<open>i\<close>, after
  the test \<^verbatim>\<open>i < npos\<close>. The step \<^verbatim>\<open>i = src.find('(', i + 1)\<close> searches the string as the
  body left it. \<^verbatim>\<open>src.at(i - 1)\<close> never throws: \<open>i\<close> is an index that \<^verbatim>\<open>find\<close> returned
  for a search from index 1 on (\<open>find_char_Some\<close> below).
\<close>

function preparse_loop :: "nat option \<Rightarrow> string \<Rightarrow> string" where
  "preparse_loop None src = src"
| "preparse_loop (Some i) src =
    (if src ! (i - 1) = CHR '')'' \<or> isdigit (src ! (i - 1))
     then preparse_loop (find_char (insert_at src i CHR ''*'') CHR ''('' (i + 1))
            (insert_at src i CHR ''*'')
     else preparse_loop (find_char src CHR ''('' (i + 1)) src)"
  by pat_completeness auto

lemma find_char_Some:
  "find_char src ch pos = Some j \<Longrightarrow> pos \<le> j \<and> j < length src \<and> src ! j = ch"
  unfolding find_char_def by (auto simp: find_Some_iff)

lemma insert_at_nth_star: "i \<le> length src \<Longrightarrow> insert_at src i ch ! i = ch"
  unfolding insert_at_def by (simp add: nth_append)

definition preparse_measure :: "nat option \<times> string \<Rightarrow> nat" where
  "preparse_measure a =
    (case a of
       (None, src) \<Rightarrow> 0
     | (Some i, src) \<Rightarrow>
         2 * (length src - i)
         + (if src ! (i - 1) = CHR '')'' \<or> isdigit (src ! (i - 1)) then 1 else 0) + 1)"

termination preparse_loop
proof (relation "measure preparse_measure", goal_cases)
  case 1
  show ?case by simp
next
  case (2 i src)
  let ?s = "insert_at src i CHR ''*''"
  show ?case
  proof (cases "find_char ?s CHR ''('' (i + 1)")
    case None
    then show ?thesis by (simp add: preparse_measure_def)
  next
    case (Some j)
    from find_char_Some[OF Some] have j: "i + 1 \<le> j" "j < length ?s" by auto
    have len: "length ?s = Suc (length src)"
      unfolding insert_at_def by simp
    show ?thesis
    proof (cases "j = i + 1")
      case True
      with j len have "i \<le> length src" by simp
      then have "?s ! (j - 1) = CHR ''*''"
        using True insert_at_nth_star by simp
      then show ?thesis
        using Some 2 j len True by (simp add: preparse_measure_def isdigit_def)
    next
      case False
      with j have "i + 2 \<le> j" by simp
      then show ?thesis
        using Some 2 j len by (auto simp add: preparse_measure_def)
    qed
  qed
next
  case (3 i src)
  show ?case
  proof (cases "find_char src CHR ''('' (i + 1)")
    case None
    then show ?thesis by (simp add: preparse_measure_def)
  next
    case (Some j)
    from find_char_Some[OF Some] have "i + 1 \<le> j" "j < length src" by auto
    then show ?thesis
      using Some 3 by (auto simp add: preparse_measure_def)
  qed
qed

definition preparse :: "string \<Rightarrow> string" where
  "preparse src = preparse_loop (find_char src CHR ''('' 1) src"

subsection \<open>namespace regex\<close>

text \<open>
  \<^verbatim>\<open>regex::real = ^(\d)+(\.(\d)*)?([Ee](\+|-)?(\d)+)?\<close>, searched at the start of the
  line. \<open>match_real\<close> is \<^verbatim>\<open>match[0].str()\<close>, or \<open>None\<close> when the search fails. Every
  quantifier is greedy and every part after the first digits is optional, so the match is:
  all leading digits; then a point with all digits after it, if there is a point; then an
  exponent mark, an optional sign and all digits after it, if there is at least one digit.
\<close>

definition real_fraction :: "string \<Rightarrow> string" where
  "real_fraction s =
    (case s of
       [] \<Rightarrow> []
     | c # r \<Rightarrow> if c = CHR ''.'' then c # takeWhile isdigit r else [])"

definition real_exponent :: "string \<Rightarrow> string" where
  "real_exponent s =
    (case s of
       [] \<Rightarrow> []
     | c # r \<Rightarrow>
         if c = CHR ''E'' \<or> c = CHR ''e'' then
           (let sg = (case r of
                        [] \<Rightarrow> []
                      | g # _ \<Rightarrow> if g = CHR ''+'' \<or> g = CHR ''-'' then [g] else []);
                dg = takeWhile isdigit (drop (length sg) r)
            in if dg = [] then [] else c # sg @ dg)
         else [])"

definition match_real :: "string \<Rightarrow> string option" where
  "match_real line =
    (let ds = takeWhile isdigit line in
     if ds = [] then None
     else
       (let fr = real_fraction (drop (length ds) line);
            ex = real_exponent (drop (length ds + length fr) line)
        in Some (ds @ fr @ ex)))"

text \<open>
  \<^verbatim>\<open>std::stod\<close> on a string that \<open>match_real\<close> returned: the decimal number it spells,
  taken exactly when a \<^verbatim>\<open>double\<close> can hold it. \<^verbatim>\<open>std::stod\<close> throws
  \<^verbatim>\<open>std::out_of_range\<close> when the number overflows (it rounds to infinity: from
  \<open>2 ^ 1024 - 2 ^ 970\<close> on) or underflows (not zero and below the least normal
  \<^verbatim>\<open>double\<close>, \<open>2 powi - 1022\<close>).
\<close>

definition digit_value :: "char \<Rightarrow> nat" where
  "digit_value c = of_char c - 48"

definition decimal :: "string \<Rightarrow> nat" where
  "decimal ds = foldl (\<lambda>n c. 10 * n + digit_value c) 0 ds"

definition spelled :: "string \<Rightarrow> const_t" where
  "spelled s =
    (let ds = takeWhile isdigit s;
         fr = real_fraction (drop (length ds) s);
         ex = real_exponent (drop (length ds + length fr) s);
         mantissa = real (decimal (ds @ drop 1 fr)) / 10 ^ (length fr - 1)
     in case drop 1 ex of
          [] \<Rightarrow> mantissa
        | g # dg \<Rightarrow>
            if g = CHR ''-'' then mantissa / 10 ^ decimal dg
            else if g = CHR ''+'' then mantissa * 10 ^ decimal dg
            else mantissa * 10 ^ decimal (g # dg))"

definition double_range :: "const_t \<Rightarrow> bool" where
  "double_range v = (v = 0 \<or> (2 powi (- 1022) \<le> v \<and> v < 2 ^ 1024 - 2 ^ 970))"

definition stod :: "string \<Rightarrow> error + const_t" where
  "stod s = (if double_range (spelled s) then Inr (spelled s) else Inl Stod_out_of_range)"

text \<open>
  \<^verbatim>\<open>regex::fun = ^((a?sin)|(a?cos)|(a?t(an|g))|(ln)|(exp)|(abs)|((sq|cb)rt))\<close>: the words
  it accepts, in the order of its alternatives. No word is a prefix of another, so at most
  one of them starts the line; \<open>match_fun\<close> is \<^verbatim>\<open>match[0].length()\<close>.
\<close>

definition fun_words :: "string list" where
  "fun_words =
    [''sin'', ''asin'', ''cos'', ''acos'', ''tan'', ''tg'', ''atan'', ''atg'',
     ''ln'', ''exp'', ''abs'', ''sqrt'', ''cbrt'']"

definition match_fun :: "string \<Rightarrow> nat option" where
  "match_fun line =
    map_option length (List.find (\<lambda>w. take (length w) line = w) fun_words)"

text \<open>
  \<^verbatim>\<open>regex::valid\<close> is searched anywhere in the line; a match starts at the first digit or
  operator character \<^verbatim>\<open>[+\-*/^%]\<close>. \<open>invalid_token\<close> is \<^verbatim>\<open>match.prefix()\<close>, the text before
  that character, or the whole line when the search fails.
\<close>

definition valid_start :: "char \<Rightarrow> bool" where
  "valid_start c = (isdigit c \<or> c \<in> set ''+-*/^%'')"

definition invalid_token :: "string \<Rightarrow> string" where
  "invalid_token line = takeWhile (\<lambda>c. \<not> valid_start c) line"

subsection \<open>expression::parse_impl\<close>

text \<open>
  The \<^verbatim>\<open>sign_buffer\<close> vector is used as a stack: only \<^verbatim>\<open>back()\<close>, \<^verbatim>\<open>pop_back()\<close>,
  \<^verbatim>\<open>emplace_back\<close> and the final traversal from \<^verbatim>\<open>rbegin()\<close>. The model keeps it as a
  list with the back of the vector first. \<open>sign_token\<close> is the conversion both the inner
  \<^verbatim>\<open>while\<close> and the final \<^verbatim>\<open>for_each\<close> apply to a sign.
\<close>

definition sign_token :: "char \<Rightarrow> error + variant_t" where
  "sign_token s =
    (if is_binary_f s
     then (case sign_to_binary s of Inl e \<Rightarrow> Inl e | Inr f \<Rightarrow> Inr (Binary f))
     else (case sign_to_unary s of Inl e \<Rightarrow> Inl e | Inr f \<Rightarrow> Inr (Unary f)))"

text \<open>
  The inner \<^verbatim>\<open>while\<close> of the operator branch: pops while the sign buffer is not empty and
  \<open>operation\<close> is not stronger than its back.
\<close>

fun pop_signs ::
  "char \<Rightarrow> char list \<Rightarrow> variant_t list \<Rightarrow> error + (variant_t list \<times> char list)" where
  "pop_signs operation [] buffer = Inr (buffer, [])"
| "pop_signs operation (back # sign_buffer) buffer =
    (if \<not> stronger_sign operation back then
       (case sign_token back of
          Inl e \<Rightarrow> Inl e
        | Inr tok \<Rightarrow> pop_signs operation sign_buffer (buffer @ [tok]))
     else Inr (buffer, back # sign_buffer))"

text \<open>The final \<^verbatim>\<open>std::for_each(sign_buffer.rbegin(), sign_buffer.rend(), ...)\<close>.\<close>

fun drain :: "char list \<Rightarrow> variant_t list \<Rightarrow> error + variant_t list" where
  "drain [] buffer = Inr buffer"
| "drain (s # sign_buffer) buffer =
    (case sign_token s of
       Inl e \<Rightarrow> Inl e
     | Inr tok \<Rightarrow> drain sign_buffer (buffer @ [tok]))"

text \<open>
  The scan for the closing parenthesis: called on the line after its first character with
  \<open>counter = 1\<close> and \<open>index = 1\<close>; returns \<open>index\<close> as the \<^verbatim>\<open>while\<close> leaves it, which is
  \<^verbatim>\<open>line.size()\<close> when the line ends first.
\<close>

fun find_close :: "string \<Rightarrow> int \<Rightarrow> nat \<Rightarrow> nat" where
  "find_close [] counter index = index"
| "find_close (c # cs) counter index =
    (let counter' =
           (if c = CHR ''('' then counter + 1
            else if c = CHR '')'' then counter - 1
            else counter)
     in if counter' = 0 then index else find_close cs counter' (index + 1))"

text \<open>
  The \<^verbatim>\<open>switch\<close> of the function branch; \<open>line ! 0\<close> is \<^verbatim>\<open>*begin\<close> and \<open>line ! 1\<close> is
  \<^verbatim>\<open>*(begin + 1)\<close>, both inside the match, which has two characters at least.
\<close>

definition fun_operation :: "string \<Rightarrow> char" where
  "fun_operation line =
    (if line ! 0 = CHR ''a'' then
       (if line ! 1 = CHR ''b'' then CHR ''|'' else toupper (line ! 1))
     else if line ! 0 = CHR ''s'' then
       (if line ! 1 = CHR ''q'' then CHR ''v'' else CHR ''s'')
     else if line ! 0 = CHR ''c'' then
       (if line ! 1 = CHR ''b'' then CHR ''V'' else CHR ''c'')
     else line ! 0)"

text \<open>
  \<^verbatim>\<open>std::toupper(*begin) == 'P' && std::toupper(*(begin + 1)) == 'I'\<close>. On a line of one
  character \<^verbatim>\<open>*(begin + 1)\<close> reads the character after the view: the closing
  parenthesis of the enclosing group or the terminator of the string, never an \<^verbatim>\<open>I\<close>.
\<close>

definition is_pi :: "string \<Rightarrow> bool" where
  "is_pi line =
    (case line of
       c # c' # _ \<Rightarrow> toupper c = CHR ''P'' \<and> toupper c' = CHR ''I''
     | _ \<Rightarrow> False)"

text \<open>The leading \<^verbatim>\<open>0.\<close> that \<^verbatim>\<open>parse_impl\<close> puts in the buffer for a line starting with a sign.\<close>

definition leading_zero :: "string \<Rightarrow> variant_t list" where
  "leading_zero line =
    (case line of
       [] \<Rightarrow> []
     | c # _ \<Rightarrow> if is_binary_f c then [Const 0] else [])"

text \<open>
  The \<^verbatim>\<open>while ( ! line.empty() )\<close> loop of \<^verbatim>\<open>parse_impl\<close> with what follows it, on the state
  (\<open>line\<close>, \<open>buffer\<close>, \<open>sign_buffer\<close>). The recursive call of \<^verbatim>\<open>parse_impl\<close> on the text
  between the parentheses is the call of the loop on that text, with its own leading zero
  and an empty sign buffer.
\<close>

function parse_loop :: "string \<Rightarrow> variant_t list \<Rightarrow> char list \<Rightarrow> error + variant_t list" where
  "parse_loop [] buffer sign_buffer =
    (case drain sign_buffer buffer of
       Inl e \<Rightarrow> Inl e
     | Inr buffer' \<Rightarrow> Inr (if buffer' = [] then [Const 0] else buffer'))"
| "parse_loop (c # cs) buffer sign_buffer =
    (case match_real (c # cs) of
       Some matched \<Rightarrow>
         (case stod matched of
            Inl e \<Rightarrow> Inl e
          | Inr v \<Rightarrow> parse_loop (drop (length matched) (c # cs)) (buffer @ [Const v]) sign_buffer)
     | None \<Rightarrow>
         if is_binary_f c then
           (case pop_signs c sign_buffer buffer of
              Inl e \<Rightarrow> Inl e
            | Inr (buffer', sign_buffer') \<Rightarrow> parse_loop cs buffer' (c # sign_buffer'))
         else if c = CHR ''('' then
           (let index = find_close cs 1 1 in
            if index = length (c # cs) then Inl Unterminated_parenthesis
            else if index > 1 then
              (case parse_loop (take (index - 1) cs) (leading_zero (take (index - 1) cs)) [] of
                 Inl e \<Rightarrow> Inl e
               | Inr symbols \<Rightarrow>
                   parse_loop (drop (index + 1) (c # cs)) (buffer @ symbols) sign_buffer)
            else parse_loop (drop (index + 1) (c # cs)) buffer sign_buffer)
         else if c = CHR '')'' then Inl Closed_parenthesis
         else if isspace c then parse_loop cs buffer sign_buffer
         else
           (case match_fun (c # cs) of
              Some n \<Rightarrow>
                parse_loop (drop n (c # cs)) buffer (fun_operation (c # cs) # sign_buffer)
            | None \<Rightarrow>
                if is_pi (c # cs) then
                  parse_loop (drop 2 (c # cs)) (buffer @ [Const 3.141592653589793]) sign_buffer
                else if c = CHR ''e'' then
                  parse_loop cs (buffer @ [Const (exp 1)]) sign_buffer
                else
                  (case invalid_token (c # cs) of
                     [] \<Rightarrow> Inl Out_of_range
                   | [p] \<Rightarrow> parse_loop cs (buffer @ [Param p]) sign_buffer
                   | _ \<Rightarrow> Inl (Unexpected_token (invalid_token (c # cs))))))"
  by pat_completeness auto

lemma match_real_length: "match_real line = Some m \<Longrightarrow> 0 < length m"
  unfolding match_real_def by (auto simp: Let_def split: if_splits)

lemma match_fun_length: "match_fun line = Some n \<Longrightarrow> 2 \<le> n \<and> n \<le> length line"
proof -
  assume "match_fun line = Some n"
  then obtain w where w: "List.find (\<lambda>w. take (length w) line = w) fun_words = Some w"
    and n: "n = length w"
    unfolding match_fun_def by auto
  from w have "w \<in> set fun_words" and tk: "take (length w) line = w"
    by (auto simp: find_Some_iff)
  then have "2 \<le> length w" unfolding fun_words_def by auto
  moreover have "length (take (length w) line) = length w"
    using tk by simp
  then have "length w \<le> length line"
    by simp
  ultimately show ?thesis using n by simp
qed

termination parse_loop
  by (relation "measure (\<lambda>(line, buffer, sign_buffer). length line)")
     (auto dest!: match_real_length match_fun_length)

definition parse_impl :: "string \<Rightarrow> error + variant_t list" where
  "parse_impl line = parse_loop line (leading_zero line) []"

text \<open>\<^verbatim>\<open>expression::parse\<close>.\<close>

definition parse :: "string \<Rightarrow> error + variant_t list" where
  "parse src = (if src = [] then Inr [Const 0] else parse_impl (preparse src))"

section \<open>The tree builder\<close>

text \<open>
  \<^verbatim>\<open>build_impl\<close> keeps a \<^verbatim>\<open>std::stack\<close> of raw pointers to nodes of the tree under
  construction and writes through them. A pointer to a node is modelled by the path from
  the root to that node; reading and writing through the pointer are \<open>node_at\<close> and
  \<open>set_child\<close>.
\<close>

datatype side = L | R

type_synonym node_ptr = "side list"

fun child :: "side \<Rightarrow> node \<Rightarrow> node option" where
  "child L n = left n"
| "child R n = right n"

fun node_at :: "node \<Rightarrow> node_ptr \<Rightarrow> node option" where
  "node_at n [] = Some n"
| "node_at n (s # p) = (case child s n of None \<Rightarrow> None | Some m \<Rightarrow> node_at m p)"

fun with_child :: "side \<Rightarrow> node option \<Rightarrow> node \<Rightarrow> node" where
  "with_child L new (Node c l r) = Node c new r"
| "with_child R new (Node c l r) = Node c l new"

text \<open>\<open>set_child p s new\<close>: the node that \<open>p\<close> points to gets \<open>new\<close> in its slot \<open>s\<close>.\<close>

fun set_child :: "node_ptr \<Rightarrow> side \<Rightarrow> node \<Rightarrow> node \<Rightarrow> node" where
  "set_child [] s new n = with_child s (Some new) n"
| "set_child (d # p) s new n =
    (case child d n of
       None \<Rightarrow> n
     | Some m \<Rightarrow> with_child d (Some (set_child p s new m)) n)"

text \<open>
  The node that \<^verbatim>\<open>*ptr = std::make_shared<node>(*it)\<close> creates, together with the sentinel
  that the unary branch hangs on its right at once.
\<close>

fun fresh_node :: "variant_t \<Rightarrow> node" where
  "fresh_node (Unary f) = Node (Unary f) None (Some (Node Nothing None None))"
| "fresh_node tok = Node tok None None"

fun is_operator :: "variant_t \<Rightarrow> bool" where
  "is_operator (Unary f) = True"
| "is_operator (Binary f) = True"
| "is_operator tok = False"

text \<open>
  The \<^verbatim>\<open>while ( it != end )\<close> loop: the first argument is what the reverse iterator has
  still to visit, the second the stack with its top first, the third the tree under
  \<^verbatim>\<open>_head\<close>. Once the stack is empty, \<^verbatim>\<open>stack.top()\<close> is undefined.
\<close>

fun build_loop :: "variant_t list \<Rightarrow> node_ptr list \<Rightarrow> node \<Rightarrow> error + node" where
  "build_loop [] stack tree = Inr tree"
| "build_loop (tok # toks) [] tree = Inl Empty_stack"
| "build_loop (tok # toks) (top_ptr # stack) tree =
    (case node_at tree top_ptr of
       None \<Rightarrow> Inl Null_dereference
     | Some n \<Rightarrow>
         if left n = None then
           build_loop toks
             (if is_operator tok then (top_ptr @ [L]) # top_ptr # stack else top_ptr # stack)
             (set_child top_ptr L (fresh_node tok) tree)
         else if right n = None then
           build_loop toks
             (if is_operator tok then (top_ptr @ [R]) # top_ptr # stack else top_ptr # stack)
             (set_child top_ptr R (fresh_node tok) tree)
         else build_loop (tok # toks) stack tree)"

text \<open>
  \<^verbatim>\<open>build_impl\<close> after \<^verbatim>\<open>parse\<close>: the new value of \<^verbatim>\<open>_head\<close> and the exception, if one is
  thrown. \<^verbatim>\<open>_head\<close> is assigned before the two checks, so it holds the lone root node when
  they throw. \<^verbatim>\<open>parse\<close> never returns an empty sequence; the model makes reading
  \<^verbatim>\<open>*symbols.crbegin()\<close> of an empty one a result of its own. After undefined behaviour
  in the loop nothing is known of the tree; the model then keeps the lone root.
\<close>

definition build_tree :: "variant_t list \<Rightarrow> node option \<times> error option" where
  "build_tree symbols =
    (case rev symbols of
       [] \<Rightarrow> (None, Some Past_the_end)
     | tok # toks \<Rightarrow>
         (case tok of
            Const v \<Rightarrow>
              if length symbols > 1 then (Some (Node tok None None), Some Bad_parsing)
              else (Some (Node tok None None), None)
          | _ \<Rightarrow>
              if is_operator tok \<and> length symbols = 1
              then (Some (Node tok None None), Some No_arguments)
              else
                (case build_loop toks [[]] (Node tok None None) of
                   Inl e \<Rightarrow> (Some (Node tok None None), Some e)
                 | Inr tree \<Rightarrow> (Some tree, None))))"

text \<open>
  A member function that changes the object returns the object as the call leaves it and
  the exception that ended the call, if any.
\<close>

definition build_impl :: "string \<Rightarrow> expression \<Rightarrow> expression \<times> error option" where
  "build_impl src e =
    (case parse src of
       Inl err \<Rightarrow> (e, Some err)
     | Inr symbols \<Rightarrow>
         (case build_tree symbols of (h, err) \<Rightarrow> (e\<lparr>head := h\<rparr>, err)))"

section \<open>The optimizer\<close>

text \<open>
  \<^verbatim>\<open>optimize_impl\<close> rewrites the node behind the reference it is given; the model returns
  the rewritten node. \<^verbatim>\<open>node = std::make_shared<expr::node>(new_function)\<close> makes a node
  with two null children, which the next two assignments fill. \<open>fuse_binary\<close> is the
  \<^verbatim>\<open>else\<close> block of the binary branch (its two \<^verbatim>\<open>if\<close>s in turn, \<open>fuse_right\<close> and
  \<open>fuse_left\<close>) and \<open>fuse_unary\<close> the \<^verbatim>\<open>else\<close> block of the unary branch. They are
  applied to a binary and to a unary node only; reading \<^verbatim>\<open>node->right->content\<close> or
  \<^verbatim>\<open>node->left->content\<close> through a null pointer is undefined.
\<close>

definition fuse_right :: "node \<Rightarrow> error + node" where
  "fuse_right n =
    (case (content n, right n) of
       (Binary f, Some rc) \<Rightarrow>
         (case content rc of
            Unary g \<Rightarrow> Inr (Node (Binary (\<lambda>a b. f a (g b))) (left n) (left rc))
          | _ \<Rightarrow> Inr n)
     | (_, None) \<Rightarrow> Inl Null_dereference
     | _ \<Rightarrow> Inr n)"

definition fuse_left :: "node \<Rightarrow> error + node" where
  "fuse_left n =
    (case (content n, left n) of
       (Binary f, Some lc) \<Rightarrow>
         (case content lc of
            Unary g \<Rightarrow> Inr (Node (Binary (\<lambda>a b. f (g a) b)) (left lc) (right n))
          | _ \<Rightarrow> Inr n)
     | (_, None) \<Rightarrow> Inl Null_dereference
     | _ \<Rightarrow> Inr n)"

definition fuse_binary :: "node \<Rightarrow> error + node" where
  "fuse_binary n = (case fuse_right n of Inl e \<Rightarrow> Inl e | Inr n' \<Rightarrow> fuse_left n')"

definition fuse_unary :: "node \<Rightarrow> error + node" where
  "fuse_unary n =
    (case (content n, left n) of
       (Unary f, Some lc) \<Rightarrow>
         (case content lc of
            Unary g \<Rightarrow> Inr (Node (Unary (\<lambda>a. f (g a))) (left lc) None)
          | Binary g \<Rightarrow>
              Inr (Node (Binary (\<lambda>a b. map_option f (g a b))) (left lc) (right lc))
          | _ \<Rightarrow> Inr n)
     | (_, None) \<Rightarrow> Inl Null_dereference
     | _ \<Rightarrow> Inr n)"

text \<open>
  \<^verbatim>\<open>optimize_impl(node)\<close> on a null pointer reads \<^verbatim>\<open>node->content\<close>: undefined. It calls
  \<^verbatim>\<open>eval_impl\<close>, a member function, which reads the dictionary of the object.
\<close>

fun optimize_impl ::
  "operand_order \<Rightarrow> (param_t \<rightharpoonup> const_t) \<Rightarrow> node option \<Rightarrow> error + node" where
  "optimize_impl ord dict None = Inl Null_dereference"
| "optimize_impl ord dict (Some (Node (Binary f) l r)) =
    (case optimize_impl ord dict l of
       Inl e \<Rightarrow> Inl e
     | Inr l' \<Rightarrow>
         (case optimize_impl ord dict r of
            Inl e \<Rightarrow> Inl e
          | Inr r' \<Rightarrow>
              if evalutable (Some (Node (Binary f) (Some l') (Some r'))) then
                (case eval_impl ord dict (Some (Node (Binary f) (Some l') (Some r'))) of
                   Inl e \<Rightarrow> Inl e
                 | Inr v \<Rightarrow> Inr (Node (Const v) (Some l') (Some r')))
              else fuse_binary (Node (Binary f) (Some l') (Some r'))))"
| "optimize_impl ord dict (Some (Node (Unary f) l r)) =
    (case optimize_impl ord dict l of
       Inl e \<Rightarrow> Inl e
     | Inr l' \<Rightarrow>
         if evalutable (Some l') then
           (case eval_impl ord dict (Some (Node (Unary f) (Some l') r)) of
              Inl e \<Rightarrow> Inl e
            | Inr v \<Rightarrow> Inr (Node (Const v) (Some l') r))
         else fuse_unary (Node (Unary f) (Some l') r))"
| "optimize_impl ord dict (Some (Node c l r)) = Inr (Node c l r)"

text \<open>\<^verbatim>\<open>expression::optimize\<close>.\<close>

definition optimize :: "operand_order \<Rightarrow> expression \<Rightarrow> expression \<times> error option" where
  "optimize ord e =
    (if head e = None then (e, None)
     else case optimize_impl ord (dictionary e) (head e) of
            Inl err \<Rightarrow> (e, Some err)
          | Inr h \<Rightarrow> (e\<lparr>head := Some h\<rparr>, None))"

section \<open>The public interface\<close>

datatype policy = Policy_build | Policy_optimize

text \<open>\<^verbatim>\<open>expression::build(policy, src)\<close>; \<^verbatim>\<open>build(src)\<close> is the policy \<^verbatim>\<open>build\<close>.\<close>

definition build ::
  "operand_order \<Rightarrow> policy \<Rightarrow> string \<Rightarrow> expression \<Rightarrow> expression \<times> error option" where
  "build ord p src e =
    (case build_impl src e of
       (e', Some err) \<Rightarrow> (e', Some err)
     | (e', None) \<Rightarrow> if p = Policy_optimize then optimize ord e' else (e', None))"

text \<open>
  The constructors: \<^verbatim>\<open>build\<close> on an object with no tree and an empty dictionary. An
  exception leaves the constructor, and then there is no object.
\<close>

definition new_expression :: "operand_order \<Rightarrow> policy \<Rightarrow> string \<Rightarrow> error + expression" where
  "new_expression ord p src =
    (case build ord p src \<lparr>head = None, dictionary = Map.empty\<rparr> of
       (e, Some err) \<Rightarrow> Inl err
     | (e, None) \<Rightarrow> Inr e)"

text \<open>The free functions \<^verbatim>\<open>compute(source)\<close> and \<^verbatim>\<open>compute(source, x, value)\<close>.\<close>

definition compute :: "operand_order \<Rightarrow> string \<Rightarrow> error + const_t option" where
  "compute ord source =
    (case new_expression ord Policy_build source of Inl err \<Rightarrow> Inl err | Inr e \<Rightarrow> eval ord e)"

definition compute_x ::
  "operand_order \<Rightarrow> string \<Rightarrow> char \<Rightarrow> const_t \<Rightarrow> error + const_t option" where
  "compute_x ord source x val =
    (case new_expression ord Policy_build source of
       Inl err \<Rightarrow> Inl err
     | Inr e \<Rightarrow> eval_x ord e x val)"

section \<open>Predicates for the statements and their proofs\<close>

text \<open>
  The invariant of the tree: a node holding a binary operator has both children, a node
  holding a unary function has its left child, and so on below.
\<close>

fun arity_ok :: "node \<Rightarrow> bool" where
  "arity_ok (Node c l r) =
    ((case c of
        Binary f \<Rightarrow> l \<noteq> None \<and> r \<noteq> None
      | Unary f \<Rightarrow> l \<noteq> None
      | _ \<Rightarrow> True)
     \<and> (case l of None \<Rightarrow> True | Some n \<Rightarrow> arity_ok n)
     \<and> (case r of None \<Rightarrow> True | Some n \<Rightarrow> arity_ok n))"

text \<open>
  What evaluation needs of a tree: it meets no null pointer and no empty node. Only the
  left child of a unary node and both children of a binary node are looked at, as in
  \<^verbatim>\<open>eval_impl\<close>. \<open>parameters\<close> lists the parameters evaluation can meet, in its order.
\<close>

fun well_formed :: "node option \<Rightarrow> bool" where
  "well_formed None = False"
| "well_formed (Some (Node (Const v) l r)) = True"
| "well_formed (Some (Node (Param p) l r)) = True"
| "well_formed (Some (Node (Unary f) l r)) = well_formed l"
| "well_formed (Some (Node (Binary f) l r)) = (well_formed r \<and> well_formed l)"
| "well_formed (Some (Node Nothing l r)) = False"

fun parameters :: "node option \<Rightarrow> param_t list" where
  "parameters None = []"
| "parameters (Some (Node (Const v) l r)) = []"
| "parameters (Some (Node (Param p) l r)) = [p]"
| "parameters (Some (Node (Unary f) l r)) = parameters l"
| "parameters (Some (Node (Binary f) l r)) = parameters r @ parameters l"
| "parameters (Some (Node Nothing l r)) = []"

text \<open>
  Every binary function that evaluation of the tree can call returns a value for every
  pair of arguments. The functions of \<^verbatim>\<open>+ - * / ^\<close> do, the modulus does not.
\<close>

fun total_tree :: "node option \<Rightarrow> bool" where
  "total_tree None = True"
| "total_tree (Some (Node (Unary f) l r)) = total_tree l"
| "total_tree (Some (Node (Binary f) l r)) =
    ((\<forall>a b. f a b \<noteq> None) \<and> total_tree r \<and> total_tree l)"
| "total_tree (Some (Node c l r)) = True"

text \<open>
  Written from the specification, for comparison with \<open>preparse\<close>: a multiplication sign
  goes between a closing parenthesis or a digit and an opening parenthesis that follows
  it at once. \<open>prev\<close> is the character before the rest of the text.
\<close>

fun implicit_multiplication :: "char \<Rightarrow> string \<Rightarrow> string" where
  "implicit_multiplication prev [] = []"
| "implicit_multiplication prev (c # cs) =
    (if c = CHR ''('' \<and> (prev = CHR '')'' \<or> isdigit prev)
     then CHR ''*'' # c # implicit_multiplication c cs
     else c # implicit_multiplication c cs)"

text \<open>
  The text with its part from index \<open>k\<close> on rewritten: what the loop of \<^verbatim>\<open>preparse\<close> is
  to return when it stands before index \<open>k\<close>.
\<close>

definition scanned :: "string \<Rightarrow> nat \<Rightarrow> string" where
  "scanned src k = take k src @ implicit_multiplication (src ! (k - 1)) (drop k src)"

text \<open>
  The shape of a tree the optimizer has been through. A unary node sits on a parameter or
  an empty node (\<open>inert\<close>); a binary node is not evaluable, has no unary child, and its
  children are left as they are by another pass.
\<close>

fun inert :: "node \<Rightarrow> bool" where
  "inert (Node (Param p) l r) = True"
| "inert (Node Nothing l r) = True"
| "inert n = False"

fun is_unary :: "node \<Rightarrow> bool" where
  "is_unary (Node (Unary f) l r) = True"
| "is_unary n = False"

definition settled :: "operand_order \<Rightarrow> (param_t \<rightharpoonup> const_t) \<Rightarrow> node \<Rightarrow> bool" where
  "settled ord dict n =
    (case content n of
       Unary f \<Rightarrow> (case left n of None \<Rightarrow> False | Some c \<Rightarrow> inert c)
     | Binary f \<Rightarrow>
         (case (left n, right n) of
            (Some l, Some r) \<Rightarrow>
              \<not> evalutable (Some n) \<and> \<not> is_unary l \<and> \<not> is_unary r
              \<and> optimize_impl ord dict (Some l) = Inr l \<and> optimize_impl ord dict (Some r) = Inr r
          | _ \<Rightarrow> False)
     | _ \<Rightarrow> True)"

text \<open>What fusing does to one child: a unary child is replaced by its own child.\<close>

definition fused_child :: "node \<Rightarrow> node option" where
  "fused_child c = (if is_unary c then left c else Some c)"

section \<open>Evaluating the model on concrete inputs\<close>

lemmas char_defs = isdigit_def isspace_def tolower_def toupper_def

lemmas resolver_defs = sign_priority_def stronger_sign_def is_binary_f_def
  sign_to_binary_def sign_to_unary_def find_char_def insert_at_def preparse_def
  real_fraction_def real_exponent_def match_real_def digit_value_def decimal_def
  spelled_def stod_def fun_words_def match_fun_def valid_start_def invalid_token_def
  sign_token_def fun_operation_def is_pi_def leading_zero_def parse_impl_def parse_def
  Let_def

lemmas builder_defs = build_tree_def build_impl_def build_def new_expression_def

lemmas optimizer_defs = optimize_def fuse_right_def fuse_left_def fuse_binary_def
  fuse_unary_def

lemmas eval_defs = compute_def compute_x_def eval_def eval_x_def set_param_def call_def

lemmas function_defs = plus_f_def minus_f_def multiplies_f_def divides_f_def modulus_f_def
  static_cast_long_def truncate_def fits_long_def pow_f_def abs_f_def sqrt_f_def sin_f_def

text \<open>Two operands that both have a value give the pair, whatever the order.\<close>

lemma operands_values [simp]: "operands ord (Inr x) (Inr y) = Inr (x, y)"
  by (cases ord) (simp_all add: operands_def)

text \<open>With one failure, that failure is the result, whatever the order.\<close>

lemma operands_right_fails [simp]: "operands ord (Inl e) (Inr y) = Inl e"
  by (cases ord) (simp_all add: operands_def)

lemma operands_left_fails [simp]: "operands ord (Inr x) (Inl e) = Inl e"
  by (cases ord) (simp_all add: operands_def)


text \<open>The numbers of the examples are in the range of \<^verbatim>\<open>std::stod\<close>.\<close>

lemma double_range_zero [simp]: "double_range 0"
  by (simp add: double_range_def)

lemma double_range_moderate [simp]: "1 \<le> v \<Longrightarrow> v \<le> 1000 \<Longrightarrow> double_range v"
proof -
  assume v: "1 \<le> v" "v \<le> 1000"
  have "(2::real) powi (- 1022) \<le> 1"
    by (simp add: power_int_minus inverse_eq_divide)
  moreover have "(1000::real) < 2 ^ 1024 - 2 ^ 970"
    by simp
  ultimately show ?thesis using v by (simp add: double_range_def)
qed

text \<open>
  The remainder by zero and the remainder of a number that a \<^verbatim>\<open>long\<close> cannot hold are
  undefined; a literal outside the range of a \<^verbatim>\<open>double\<close> makes \<^verbatim>\<open>std::stod\<close> throw.
\<close>

lemma undefined_modulus_examples:
  "compute ord ''5%0'' = Inl Undefined_arithmetic
   \<and> compute ord ''1e30%7'' = Inl Undefined_arithmetic
   \<and> compute ord ''7%2'' = Inr (Some 1)"
  by (simp add: char_defs resolver_defs builder_defs eval_defs function_defs double_range_def
      power_int_minus inverse_eq_divide)

lemma stod_out_of_range_examples:
  "parse ''1e400'' = Inl Stod_out_of_range
   \<and> parse ''1e-400'' = Inl Stod_out_of_range
   \<and> parse ''1e300'' = Inr [Const (10 ^ 300)]"
  by (simp add: char_defs resolver_defs double_range_def power_int_minus inverse_eq_divide)

section \<open>Optimizer and evaluator\<close>

text \<open>
  C1. The claim: \<^verbatim>\<open>eval()\<close> gives the same value before and after \<^verbatim>\<open>optimize()\<close>, in
  particular when a binary operator is fused with a unary child, as for \<^verbatim>\<open>1-sin(x)\<close> and
  \<^verbatim>\<open>sin(x)-1\<close>. The code does not do that. The evaluator calls a binary function as
  \<open>f (right value) (left value)\<close>, while the fused closure built for a unary \<^emph>\<open>left\<close>
  child applies the unary function to its \<^emph>\<open>first\<close> argument, and the one built for a unary
  \<^emph>\<open>right\<close> child to its \<^emph>\<open>second\<close>. With \<open>x = 2\<close>, \<^verbatim>\<open>1-sin(x)\<close> evaluates to \<open>1 - sin 2\<close>
  before and to \<open>sin 1 - 2\<close> after \<^verbatim>\<open>optimize()\<close>, and \<^verbatim>\<open>sin(x)-1\<close> to \<open>sin 2 - 1\<close>
  before and to \<open>2 - sin 1\<close> after; each pair is at least 1 apart.
\<close>

theorem optimize_changes_value:
  "(\<exists>e e'. new_expression ord Policy_build ''1-sin(x)'' = Inr e
       \<and> optimize ord (set_param CHR ''x'' 2 e) = (e', None)
       \<and> eval ord (set_param CHR ''x'' 2 e) = Inr (Some (1 - sin 2))
       \<and> eval ord e' = Inr (Some (sin 1 - 2)))
   \<and> (\<exists>e e'. new_expression ord Policy_build ''sin(x)-1'' = Inr e
       \<and> optimize ord (set_param CHR ''x'' 2 e) = (e', None)
       \<and> eval ord (set_param CHR ''x'' 2 e) = Inr (Some (sin 2 - 1))
       \<and> eval ord e' = Inr (Some (2 - sin 1)))
   \<and> sin 1 - 2 + 1 \<le> 1 - sin (2::real)
   \<and> sin 2 - 1 + 1 \<le> 2 - sin (1::real)"
proof -
  have a: "\<exists>e e'. new_expression ord Policy_build ''1-sin(x)'' = Inr e
       \<and> optimize ord (set_param CHR ''x'' 2 e) = (e', None)
       \<and> eval ord (set_param CHR ''x'' 2 e) = Inr (Some (1 - sin 2))
       \<and> eval ord e' = Inr (Some (sin 1 - 2))"
    by (simp add: char_defs resolver_defs builder_defs eval_defs optimizer_defs
        minus_f_def sin_f_def)
  have b: "\<exists>e e'. new_expression ord Policy_build ''sin(x)-1'' = Inr e
       \<and> optimize ord (set_param CHR ''x'' 2 e) = (e', None)
       \<and> eval ord (set_param CHR ''x'' 2 e) = Inr (Some (sin 2 - 1))
       \<and> eval ord e' = Inr (Some (2 - sin 1))"
    by (simp add: char_defs resolver_defs builder_defs eval_defs optimizer_defs
        minus_f_def sin_f_def)
  have c: "sin 1 - 2 + 1 \<le> 1 - sin (2::real)"
    using sin_le_one[of "1::real"] sin_le_one[of "2::real"] by linarith
  have d: "sin 2 - 1 + 1 \<le> 2 - sin (1::real)"
    using sin_le_one[of "1::real"] sin_le_one[of "2::real"] by linarith
  show ?thesis using a b c d by blast
qed

section \<open>Tree builder\<close>

text \<open>
  C2. The claim: after every \<^verbatim>\<open>build\<close> that returns, every binary node has two non-null
  children and every unary node a non-null left child, also for \<^verbatim>\<open>1+\<close>. The code does not
  establish that: the arity check of \<^verbatim>\<open>build_impl\<close> fires only for a token sequence of
  length one. \<^verbatim>\<open>1+\<close> builds without an exception into a \<^verbatim>\<open>+\<close> node whose right child is
  null, which the evaluator then dereferences; \<^verbatim>\<open>sin+\<close> builds into a tree whose unary node
  has a null left child as well.
\<close>

theorem build_leaves_null_child:
  "new_expression ord Policy_build ''1+'' =
     Inr \<lparr>head = Some (Node (Binary plus_f) (Some (Node (Const 1) None None)) None),
          dictionary = Map.empty\<rparr>
   \<and> \<not> arity_ok (Node (Binary plus_f) (Some (Node (Const 1) None None)) None)
   \<and> compute ord ''1+'' = Inl Null_dereference
   \<and> new_expression ord Policy_build ''sin+'' =
     Inr \<lparr>head = Some (Node (Binary plus_f)
                          (Some (Node (Unary sin_f) None (Some (Node Nothing None None))))
                          None),
          dictionary = Map.empty\<rparr>"
  by (simp add: char_defs resolver_defs builder_defs eval_defs)

section \<open>Precedence\<close>

text \<open>
  What holds of the precedence levels: \<^verbatim>\<open>+ -\<close> are at 0, \<^verbatim>\<open>* /\<close> at 1, \<^verbatim>\<open>^\<close> at 2, the
  tag of every function but \<^verbatim>\<open>abs\<close> at 3; the three expressions evaluate to 14, 20 and 64,
  the last by the left-to-right grouping \<open>(2^3)^2\<close>.
\<close>

lemma precedence_examples:
  "list_all (\<lambda>op. sign_priority op = 0) ''+-''
   \<and> list_all (\<lambda>op. sign_priority op = 1) ''*/''
   \<and> sign_priority CHR ''^'' = 2
   \<and> list_all (\<lambda>w. sign_priority (fun_operation w) = 3)
        [''sin'', ''asin'', ''cos'', ''acos'', ''tan'', ''tg'', ''atan'', ''atg'',
         ''ln'', ''exp'', ''sqrt'', ''cbrt'']
   \<and> compute ord ''2+3*4'' = Inr (Some 14)
   \<and> compute ord ''(2+3)*4'' = Inr (Some 20)
   \<and> parse ''2^3^2'' = Inr [Const 2, Const 3, Binary pow_f, Const 2, Binary pow_f]
   \<and> compute ord ''2^3^2'' = Inr (Some 64)"
  by (simp add: char_defs resolver_defs builder_defs eval_defs function_defs)

text \<open>
  C3. The claim: precedence levels \<^verbatim>\<open>+ -\<close> (0) < \<^verbatim>\<open>* /\<close> (1) < \<^verbatim>\<open>^\<close> (2) < named unary
  functions (3), equal precedence pops, and \<^verbatim>\<open>2+3*4\<close>, \<^verbatim>\<open>(2+3)*4\<close>, \<^verbatim>\<open>2^3^2\<close> evaluate to
  14, 20 and 64. All of it holds (\<open>precedence_examples\<close>) except for one named function:
  the resolver tags \<^verbatim>\<open>abs\<close> with the character \<^verbatim>\<open>|\<close>, which \<^verbatim>\<open>sign_priority\<close> does not list
  (it lists \<^verbatim>\<open>a\<close>, which is no tag), so \<^verbatim>\<open>abs\<close> gets priority -1, below \<^verbatim>\<open>+ -\<close>. A binary
  operator after \<^verbatim>\<open>abs(...)\<close> therefore does not pop it: \<^verbatim>\<open>abs(1)-2\<close> resolves to
  \<open>abs (1 - 2)\<close> and evaluates to 1, where \<^verbatim>\<open>sqrt(1)-2\<close> resolves to \<open>sqrt 1 - 2\<close> and
  evaluates to -1.
\<close>

theorem abs_binds_weaker_than_minus:
  "fun_operation ''abs'' = CHR ''|''
   \<and> sign_priority CHR ''|'' = - 1
   \<and> parse ''abs(1)-2'' = Inr [Const 1, Const 2, Binary minus_f, Unary abs_f]
   \<and> compute ord ''abs(1)-2'' = Inr (Some 1)
   \<and> parse ''sqrt(1)-2'' = Inr [Const 1, Unary sqrt_f, Const 2, Binary minus_f]
   \<and> compute ord ''sqrt(1)-2'' = Inr (Some (- 1))"
  by (simp add: char_defs resolver_defs builder_defs eval_defs function_defs)

section \<open>Parameters\<close>








section \<open>Malformed input\<close>

text \<open>
  C8. Construction from \<^verbatim>\<open>(1+2\<close> fails with the unterminated-parenthesis error, from
  \<^verbatim>\<open>1+2)\<close> with the error for a closing parenthesis without an opening one, and from
  \<^verbatim>\<open>sin\<close> with the error for a function or operator without arguments, under either
  policy; the constructor yields no object. \<^verbatim>\<open>build\<close> on an existing object ends in the
  same exceptions.
\<close>

theorem malformed_input_fails:
  "new_expression ord p ''(1+2'' = Inl Unterminated_parenthesis
   \<and> new_expression ord p ''1+2)'' = Inl Closed_parenthesis
   \<and> new_expression ord p ''sin'' = Inl No_arguments
   \<and> snd (build ord p ''(1+2'' e) = Some Unterminated_parenthesis
   \<and> snd (build ord p ''1+2)'' e) = Some Closed_parenthesis
   \<and> snd (build ord p ''sin'' e) = Some No_arguments"
  by (simp add: char_defs resolver_defs builder_defs)

section \<open>A parameter as last token\<close>

lemma content_with_child: "content (with_child s new n) = content n"
  by (cases n; cases s) simp_all

lemma content_set_child: "content (set_child p s new n) = content n"
  by (induction p arbitrary: n) (auto simp: content_with_child split: option.splits)

lemma build_loop_content: "build_loop toks stack tree = Inr t \<Longrightarrow> content t = content tree"
  by (induction toks stack tree rule: build_loop.induct)
     (auto simp: content_set_child split: option.splits if_splits)

lemma build_loop_not_thrown: "build_loop toks stack tree = Inl e \<Longrightarrow> \<not> thrown e"
  by (induction toks stack tree rule: build_loop.induct)
     (auto split: option.splits if_splits)

text \<open>
  C9. The claim: when the token sequence ends in a parameter and has earlier tokens,
  build raises no error and \<^verbatim>\<open>eval\<close> returns just the value of the parameter, as for
  \<^verbatim>\<open>3x\<close>. The code does not do that for every such sequence. \<^verbatim>\<open>1 2 3x\<close> resolves to the
  four tokens 1, 2, 3, \<open>x\<close>: the root \<open>x\<close> takes 3 and 2 as its children, the loop then
  pops the root off the stack and calls \<^verbatim>\<open>stack.top()\<close> on the empty stack for the token
  1. That is undefined behaviour, not a tree on which \<^verbatim>\<open>eval\<close> returns the value of
  \<open>x\<close>: the loop of \<^verbatim>\<open>build_impl\<close> lacks the guard for tokens that no slot is left for,
  while the branch for a constant as last token does throw on trailing tokens.
\<close>

theorem long_sequence_before_parameter:
  "parse ''1 2 3x'' = Inr [Const 1, Const 2, Const 3, Param CHR ''x'']
   \<and> build_tree [Const 1, Const 2, Const 3, Param CHR ''x''] =
       (Some (Node (Param CHR ''x'') None None), Some Empty_stack)
   \<and> new_expression ord Policy_build ''1 2 3x'' = Inl Empty_stack"
  by (simp add: char_defs resolver_defs builder_defs)

text \<open>
  What holds when the last token is a parameter: \<^verbatim>\<open>build_impl\<close> throws no exception (the
  trailing-tokens check applies only when the last token is a constant, and then it
  throws for every non-empty rest); whenever the build returns, the root is the parameter
  and evaluation gives just its value, or the unassigned-parameter error for it. \<^verbatim>\<open>3x\<close>
  resolves to the tokens 3, \<open>x\<close>, builds, and evaluates to 5 with \<open>x\<close> bound to 5.
\<close>

lemma trailing_parameter_wins:
  "(case snd (build_tree (symbols @ [Param p])) of None \<Rightarrow> True | Some e \<Rightarrow> \<not> thrown e)
   \<and> (snd (build_tree (symbols @ [Param p])) = None \<longrightarrow>
        eval_impl ord dict (fst (build_tree (symbols @ [Param p]))) =
          (case dict p of None \<Rightarrow> Inl (Unassigned_parameter p) | Some v \<Rightarrow> Inr v))
   \<and> (symbols \<noteq> [] \<longrightarrow> snd (build_tree (symbols @ [Const c])) = Some Bad_parsing)
   \<and> parse ''3x'' = Inr [Const 3, Param CHR ''x'']
   \<and> (\<exists>e. new_expression ord Policy_build ''3x'' = Inr e
          \<and> eval ord (set_param CHR ''x'' 5 e) = Inr (Some 5))"
proof -
  let ?b = "build_loop (rev symbols) [[]] (Node (Param p) None None)"
  have bt: "build_tree (symbols @ [Param p]) =
      (case ?b of
         Inl e \<Rightarrow> (Some (Node (Param p) None None), Some e)
       | Inr tree \<Rightarrow> (Some tree, None))"
    by (simp add: build_tree_def)
  have 1: "case snd (build_tree (symbols @ [Param p])) of None \<Rightarrow> True | Some e \<Rightarrow> \<not> thrown e"
    using build_loop_not_thrown[of "rev symbols" "[[]]" "Node (Param p) None None"]
    by (simp add: bt split: sum.splits)
  have 2: "snd (build_tree (symbols @ [Param p])) = None \<longrightarrow>
        eval_impl ord dict (fst (build_tree (symbols @ [Param p]))) =
          (case dict p of None \<Rightarrow> Inl (Unassigned_parameter p) | Some v \<Rightarrow> Inr v)"
  proof
    assume ok: "snd (build_tree (symbols @ [Param p])) = None"
    then obtain t where t: "?b = Inr t"
      by (cases ?b) (simp_all add: bt)
    from build_loop_content[OF t] have "content t = Param p" by simp
    then obtain l r where "t = Node (Param p) l r" by (cases t) simp
    then show "eval_impl ord dict (fst (build_tree (symbols @ [Param p]))) =
          (case dict p of None \<Rightarrow> Inl (Unassigned_parameter p) | Some v \<Rightarrow> Inr v)"
      by (simp add: bt t)
  qed
  have 3: "symbols \<noteq> [] \<longrightarrow> snd (build_tree (symbols @ [Const c])) = Some Bad_parsing"
    by (simp add: build_tree_def)
  have 4: "parse ''3x'' = Inr [Const 3, Param CHR ''x'']"
    by (simp add: char_defs resolver_defs)
  have 5: "\<exists>e. new_expression ord Policy_build ''3x'' = Inr e
          \<and> eval ord (set_param CHR ''x'' 5 e) = Inr (Some 5)"
    by (simp add: char_defs resolver_defs builder_defs eval_defs)
  show ?thesis using 1 2 3 4 5 by blast
qed


section \<open>The modulus operator\<close>

lemma sign_priority_ge: "- 1 \<le> sign_priority c"
  unfolding sign_priority_def by (simp add: Let_def)

lemma not_stronger_modulus: "\<not> stronger_sign CHR ''%'' c"
proof -
  have "sign_priority CHR ''%'' = - 1"
    by (simp add: sign_priority_def tolower_def)
  then show ?thesis
    using sign_priority_ge[of c] by (simp add: stronger_sign_def)
qed

lemma pop_signs_modulus:
  "pop_signs CHR ''%'' sign_buffer buffer =
    (case drain sign_buffer buffer of Inl e \<Rightarrow> Inl e | Inr buffer' \<Rightarrow> Inr (buffer', []))"
  by (induction sign_buffer arbitrary: buffer) (auto simp: not_stronger_modulus split: sum.splits)

text \<open>
  C10, as stated, fails for one later operator: a second \<^verbatim>\<open>%\<close>. It is not stronger than
  the pending \<^verbatim>\<open>%\<close> (equal priority), so the generic rule pops it: in \<^verbatim>\<open>1%2%3\<close> the
  second \<^verbatim>\<open>%\<close> pops the first.
\<close>

theorem modulus_popped_by_modulus:
  "is_binary_f CHR ''%''
   \<and> pop_signs CHR ''%'' [CHR ''%''] [Const 1, Const 2] =
       Inr ([Const 1, Const 2, Binary modulus_f], [])
   \<and> parse ''1%2%3'' = Inr [Const 1, Const 2, Binary modulus_f, Const 3, Binary modulus_f]"
  by (simp add: char_defs resolver_defs)

text \<open>
  C10, amended. \<^verbatim>\<open>%\<close> has priority -1, below every other binary operator (\<^verbatim>\<open>+ - * / ^\<close>
  are all the others). So when \<^verbatim>\<open>%\<close> arrives, the inner loop pops every pending sign,
  exactly as the final drain would, and leaves the sign buffer empty; and no later
  operator other than a further \<^verbatim>\<open>%\<close> pops a pending \<^verbatim>\<open>%\<close>. \<^verbatim>\<open>1+2%3\<close> resolves to the
  tokens of \<^verbatim>\<open>(1+2)%3\<close> and evaluates to 0.
\<close>

theorem modulus_lowest_precedence:
  "sign_priority CHR ''%'' = - 1
   \<and> (\<forall>op. is_binary_f op = (op = CHR ''%'' \<or> op \<in> set ''+-*/^''))
   \<and> list_all (\<lambda>op. sign_priority CHR ''%'' < sign_priority op) ''+-*/^''
   \<and> pop_signs CHR ''%'' sign_buffer buffer =
       (case drain sign_buffer buffer of Inl e \<Rightarrow> Inl e | Inr buffer' \<Rightarrow> Inr (buffer', []))
   \<and> list_all (\<lambda>op. pop_signs op (CHR ''%'' # sign_buffer) buffer
                      = Inr (buffer, CHR ''%'' # sign_buffer)) ''+-*/^''
   \<and> parse ''1+2%3'' = Inr [Const 1, Const 2, Binary plus_f, Const 3, Binary modulus_f]
   \<and> parse ''(1+2)%3'' = parse ''1+2%3''
   \<and> compute ord ''1+2%3'' = Inr (Some 0)"
proof -
  have 1: "sign_priority CHR ''%'' = - 1"
    by (simp add: sign_priority_def tolower_def)
  have 2: "list_all (\<lambda>op. sign_priority CHR ''%'' < sign_priority op) ''+-*/^''"
    by (simp add: sign_priority_def tolower_def)
  have 3: "\<forall>op. is_binary_f op = (op = CHR ''%'' \<or> op \<in> set ''+-*/^'')"
    by (auto simp: is_binary_f_def)
  have 4: "list_all (\<lambda>op. pop_signs op (CHR ''%'' # sign_buffer) buffer
                      = Inr (buffer, CHR ''%'' # sign_buffer)) ''+-*/^''"
    by (simp add: stronger_sign_def sign_priority_def tolower_def)
  have 5: "parse ''1+2%3'' = Inr [Const 1, Const 2, Binary plus_f, Const 3, Binary modulus_f]"
    by (simp add: char_defs resolver_defs)
  have 6: "parse ''(1+2)%3'' = parse ''1+2%3''"
    by (simp add: char_defs resolver_defs)
  have 7: "compute ord ''1+2%3'' = Inr (Some 0)"
    by (simp add: char_defs resolver_defs builder_defs eval_defs function_defs)
  show ?thesis using 1 2 3 4 5 6 7 pop_signs_modulus by blast
qed

section \<open>Optimizing twice\<close>

lemma inert_fixed: "inert c \<Longrightarrow> optimize_impl ord dict (Some c) = Inr c"
  by (cases c rule: inert.cases) simp_all

lemma inert_not_evalutable: "inert c \<Longrightarrow> \<not> evalutable (Some c)"
  by (cases c rule: inert.cases) simp_all

lemma inert_not_unary: "inert c \<Longrightarrow> \<not> is_unary c"
  by (cases c rule: inert.cases) simp_all

lemma fuse_unary_inert: "inert c \<Longrightarrow> fuse_unary (Node (Unary f) (Some c) r) = Inr (Node (Unary f) (Some c) r)"
  by (cases c rule: inert.cases) (simp_all add: fuse_unary_def)

lemma fuse_binary_no_unary:
  "\<not> is_unary l \<Longrightarrow> \<not> is_unary r \<Longrightarrow>
   fuse_binary (Node (Binary f) (Some l) (Some r)) = Inr (Node (Binary f) (Some l) (Some r))"
  by (cases l rule: is_unary.cases; cases r rule: is_unary.cases)
     (simp_all add: fuse_binary_def fuse_right_def fuse_left_def)

lemma settled_fixed: "settled ord dict n \<Longrightarrow> optimize_impl ord dict (Some n) = Inr n"
proof (cases n)
  case (Node c l r)
  assume s: "settled ord dict n"
  show ?thesis
  proof (cases c)
    case (Unary f)
    with s Node obtain ch where ch: "l = Some ch" "inert ch"
      by (auto simp: settled_def split: option.splits)
    then show ?thesis
      using Node Unary by (simp add: inert_fixed inert_not_evalutable fuse_unary_inert)
  next
    case (Binary f)
    with s Node obtain a b where ab: "l = Some a" "r = Some b"
      "\<not> evalutable (Some n)" "\<not> is_unary a" "\<not> is_unary b"
      "optimize_impl ord dict (Some a) = Inr a" "optimize_impl ord dict (Some b) = Inr b"
      by (auto simp: settled_def split: option.splits)
    then show ?thesis
      using Node Binary by (auto simp add: fuse_binary_no_unary)
  qed (use Node in simp_all)
qed

lemma settled_unary_child:
  "settled ord dict n \<Longrightarrow> is_unary n \<Longrightarrow> \<exists>c. left n = Some c \<and> inert c"
  by (cases n rule: is_unary.cases) (auto simp: settled_def split: option.splits)

lemma fuse_unary_settled:
  assumes "settled ord dict l'" "\<not> evalutable (Some l')" "fuse_unary (Node (Unary f) (Some l') r) = Inr t"
  shows "settled ord dict t"
proof (cases "content l'")
  case (Unary g)
  then have "is_unary l'" by (cases l') simp
  with assms(1) obtain c where "left l' = Some c" "inert c"
    using settled_unary_child by blast
  then show ?thesis using assms(3) Unary by (auto simp: fuse_unary_def settled_def)
next
  case (Binary g)
  with assms(1) obtain a b where ab: "left l' = Some a" "right l' = Some b"
      "\<not> evalutable (Some l')" "\<not> is_unary a" "\<not> is_unary b"
      "optimize_impl ord dict (Some a) = Inr a" "optimize_impl ord dict (Some b) = Inr b"
    by (auto simp: settled_def split: option.splits)
  have "evalutable (Some l') = (evalutable (Some a) \<and> evalutable (Some b))"
    using ab Binary by (cases l') simp
  then show ?thesis using assms(3) Binary ab by (auto simp: fuse_unary_def settled_def)
next
  case (Const v)
  then have "evalutable (Some l')" by (cases l') simp
  with assms(2) show ?thesis by simp
next
  case (Param p)
  then have "inert l'" by (cases l') simp
  then show ?thesis using assms(3) Param by (auto simp: fuse_unary_def settled_def)
next
  case Nothing
  then have "inert l'" by (cases l') simp
  then show ?thesis using assms(3) Nothing by (auto simp: fuse_unary_def settled_def)
qed


lemma fuse_binary_shape:
  "\<exists>g. fuse_binary (Node (Binary f) (Some l) (Some r)) = Inr (Node (Binary g) (fused_child l) (fused_child r))"
  by (cases l rule: is_unary.cases; cases r rule: is_unary.cases)
     (simp_all add: fuse_binary_def fuse_right_def fuse_left_def fused_child_def)

lemma fused_child_settled:
  assumes "settled ord dict c"
  shows "\<exists>c'. fused_child c = Some c' \<and> \<not> is_unary c' \<and> optimize_impl ord dict (Some c') = Inr c'
           \<and> (evalutable (Some c') = evalutable (Some c))"
proof (cases "is_unary c")
  case True
  with assms obtain d where d: "left c = Some d" "inert d"
    using settled_unary_child by blast
  have "evalutable (Some c) = evalutable (Some d)"
    using True d by (cases c rule: is_unary.cases) simp_all
  then show ?thesis
    using True d by (simp add: fused_child_def inert_not_unary inert_fixed)
next
  case False
  then show ?thesis using assms by (simp add: fused_child_def settled_fixed)
qed

lemma fuse_binary_settled:
  assumes "settled ord dict l'" "settled ord dict r'"
    "\<not> evalutable (Some (Node (Binary f) (Some l') (Some r')))"
    "fuse_binary (Node (Binary f) (Some l') (Some r')) = Inr t"
  shows "settled ord dict t"
proof -
  obtain g where g: "t = Node (Binary g) (fused_child l') (fused_child r')"
    using fuse_binary_shape[of f l' r'] assms(4) by auto
  obtain a where a: "fused_child l' = Some a" "\<not> is_unary a" "optimize_impl ord dict (Some a) = Inr a"
      "evalutable (Some a) = evalutable (Some l')"
    using fused_child_settled[OF assms(1)] by blast
  obtain b where b: "fused_child r' = Some b" "\<not> is_unary b" "optimize_impl ord dict (Some b) = Inr b"
      "evalutable (Some b) = evalutable (Some r')"
    using fused_child_settled[OF assms(2)] by blast
  show ?thesis using g a b assms(3) by (simp add: settled_def)
qed

lemma optimize_impl_settled: "optimize_impl ord dict t = Inr t' \<Longrightarrow> settled ord dict t'"
proof (induction ord dict t arbitrary: t' rule: optimize_impl.induct)
  case (1 ord dict)
  then show ?case by simp
next
  case (2 ord dict f l r)
  from "2.prems" obtain l' where l': "optimize_impl ord dict l = Inr l'"
    by (auto split: sum.splits)
  from "2.prems" l' obtain r' where r': "optimize_impl ord dict r = Inr r'"
    by (auto split: sum.splits)
  have sl: "settled ord dict l'" using "2.IH"(1) l' by simp
  have sr: "settled ord dict r'" using "2.IH"(2) l' r' by simp
  show ?case
  proof (cases "evalutable (Some (Node (Binary f) (Some l') (Some r')))")
    case True
    with "2.prems" l' r' obtain v where "t' = Node (Const v) (Some l') (Some r')"
      by (auto split: sum.splits)
    then show ?thesis by (simp add: settled_def)
  next
    case False
    with "2.prems" l' r' have "fuse_binary (Node (Binary f) (Some l') (Some r')) = Inr t'"
      by (auto split: sum.splits)
    then show ?thesis using fuse_binary_settled[OF sl sr False] by simp
  qed
next
  case (3 ord dict f l r)
  from "3.prems" obtain l' where l': "optimize_impl ord dict l = Inr l'"
    by (auto split: sum.splits)
  have sl: "settled ord dict l'" using "3.IH" l' by simp
  show ?case
  proof (cases "evalutable (Some l')")
    case True
    with "3.prems" l' obtain v where "t' = Node (Const v) (Some l') r"
      by (auto split: sum.splits)
    then show ?thesis by (simp add: settled_def)
  next
    case False
    with "3.prems" l' have "fuse_unary (Node (Unary f) (Some l') r) = Inr t'"
      by (auto split: sum.splits)
    then show ?thesis using fuse_unary_settled[OF sl False] by simp
  qed
qed (auto simp: settled_def)

lemma optimize_impl_idempotent:
  "optimize_impl ord dict t = Inr t' \<Longrightarrow> optimize_impl ord dict (Some t') = Inr t'"
  using optimize_impl_settled settled_fixed by blast

lemma fuse_unary_returns: "\<exists>t. fuse_unary (Node (Unary f) (Some l') r) = Inr t"
  by (cases "content l'") (simp_all add: fuse_unary_def)

lemma fuse_binary_returns: "\<exists>t. fuse_binary (Node (Binary f) (Some l') (Some r')) = Inr t"
  using fuse_binary_shape[of f l' r'] by blast

lemma settled_evalutable:
  assumes "settled ord dict n" "evalutable (Some n)"
  shows "\<exists>v l r. n = Node (Const v) l r"
proof (cases n)
  case (Node c l r)
  show ?thesis
  proof (cases c)
    case (Unary f)
    with assms(1) Node obtain ch where "l = Some ch" "inert ch"
      by (auto simp: settled_def split: option.splits)
    with assms(2) Node Unary show ?thesis by (simp add: inert_not_evalutable)
  next
    case (Binary f)
    with assms Node show ?thesis by (auto simp: settled_def split: option.splits)
  qed (use assms(2) Node in simp_all)
qed

lemma optimize_impl_returns:
  "well_formed t \<Longrightarrow> total_tree t \<Longrightarrow> \<exists>t'. optimize_impl ord dict t = Inr t'"
proof (induction ord dict t rule: optimize_impl.induct)
  case (2 ord dict f l r)
  then obtain l' r' where lr: "optimize_impl ord dict l = Inr l'" "optimize_impl ord dict r = Inr r'"
    by auto
  note sl = optimize_impl_settled[OF lr(1)] and sr = optimize_impl_settled[OF lr(2)]
  have tot: "\<And>a b. f a b \<noteq> None" using "2.prems"(2) by simp
  show ?case
  proof (cases "evalutable (Some (Node (Binary f) (Some l') (Some r')))")
    case True
    then have "evalutable (Some l')" "evalutable (Some r')" by simp_all
    with sl sr obtain a la ra b lb rb
      where "l' = Node (Const a) la ra" "r' = Node (Const b) lb rb"
      using settled_evalutable[of ord dict l'] settled_evalutable[of ord dict r'] by blast
    then have "eval_impl ord dict (Some (Node (Binary f) (Some l') (Some r'))) = call f b a"
      by simp
    moreover obtain v where "f b a = Some v" using tot[of b a] by auto
    ultimately have "eval_impl ord dict (Some (Node (Binary f) (Some l') (Some r'))) = Inr v"
      by (simp add: call_def)
    with True lr show ?thesis by simp
  next
    case False
    with lr fuse_binary_returns[of f l' r'] show ?thesis by auto
  qed
next
  case (3 ord dict f l r)
  then obtain l' where l': "optimize_impl ord dict l = Inr l'" by auto
  note sl = optimize_impl_settled[OF l']
  show ?case
  proof (cases "evalutable (Some l')")
    case True
    with sl obtain a la ra where "l' = Node (Const a) la ra"
      using settled_evalutable[of ord dict l'] by blast
    then have "eval_impl ord dict (Some (Node (Unary f) (Some l') r)) = Inr (f a)"
      by simp
    with True l' show ?thesis by simp
  next
    case False
    with l' fuse_unary_returns[of f l' r] show ?thesis by auto
  qed
qed simp_all

text \<open>
  On a tree that has all its operands the only way for \<^verbatim>\<open>optimize_impl\<close> not to return is
  an undefined call of a binary function while folding constants.
\<close>

lemma optimize_impl_defined:
  "well_formed t \<Longrightarrow>
   (\<exists>t'. optimize_impl ord dict t = Inr t') \<or> optimize_impl ord dict t = Inl Undefined_arithmetic"
proof (induction ord dict t rule: optimize_impl.induct)
  case (2 ord dict f l r)
  from "2.prems" have wl: "well_formed l" and wr: "well_formed r" by simp_all
  show ?case
  proof (cases "optimize_impl ord dict l")
    case (Inl e)
    with "2.IH"(1)[OF wl] show ?thesis by simp
  next
    case l': (Inr l')
    show ?thesis
    proof (cases "optimize_impl ord dict r")
      case (Inl e)
      with "2.IH"(2)[OF l' wr] l' show ?thesis by simp
    next
      case r': (Inr r')
      note sl = optimize_impl_settled[OF l'] and sr = optimize_impl_settled[OF r']
      show ?thesis
      proof (cases "evalutable (Some (Node (Binary f) (Some l') (Some r')))")
        case True
        then have "evalutable (Some l')" "evalutable (Some r')" by simp_all
        with sl sr obtain a la ra b lb rb
          where "l' = Node (Const a) la ra" "r' = Node (Const b) lb rb"
          using settled_evalutable[of ord dict l'] settled_evalutable[of ord dict r'] by blast
        then have "eval_impl ord dict (Some (Node (Binary f) (Some l') (Some r'))) = call f b a"
          by simp
        with True l' r' show ?thesis by (cases "f b a") (simp_all add: call_def)
      next
        case False
        with l' r' fuse_binary_returns[of f l' r'] show ?thesis by auto
      qed
    qed
  qed
next
  case (3 ord dict f l r)
  from "3.prems" have wl: "well_formed l" by simp
  show ?case
  proof (cases "optimize_impl ord dict l")
    case (Inl e)
    with "3.IH"[OF wl] show ?thesis by simp
  next
    case l': (Inr l')
    note sl = optimize_impl_settled[OF l']
    show ?thesis
    proof (cases "evalutable (Some l')")
      case True
      with sl obtain a la ra where "l' = Node (Const a) la ra"
        using settled_evalutable[of ord dict l'] by blast
      then have "eval_impl ord dict (Some (Node (Unary f) (Some l') r)) = Inr (f a)"
        by simp
      with True l' show ?thesis by simp
    next
      case False
      with l' fuse_unary_returns[of f l' r] show ?thesis by auto
    qed
  qed
qed simp_all

text \<open>
  C5. When \<^verbatim>\<open>optimize()\<close> has returned, a second \<^verbatim>\<open>optimize()\<close> returns too and leaves the
  object as it is: the tree after two calls is the tree after one, so \<^verbatim>\<open>eval()\<close> and
  \<^verbatim>\<open>eval(name, value)\<close> give the same result after two calls as after one. The same holds
  of \<^verbatim>\<open>optimize_impl\<close> on every subtree, and a node that holds a constant, such as a folded
  subtree, is returned unchanged. \<^verbatim>\<open>optimize()\<close> does return on every tree that has all
  its operands (\<open>well_formed\<close>) and whose binary functions are defined for all arguments
  (\<open>total_tree\<close>); on a tree that has all its operands it returns unless folding
  constants makes an undefined call, as the remainder by zero is.
\<close>

theorem optimize_idempotent:
  "(optimize ord e = (e1, None) \<longrightarrow>
      optimize ord e1 = (e1, None)
      \<and> eval ord' (fst (optimize ord e1)) = eval ord' e1
      \<and> eval_x ord' (fst (optimize ord e1)) x v = eval_x ord' e1 x v)
   \<and> (optimize_impl ord dict t = Inr t' \<longrightarrow> optimize_impl ord dict (Some t') = Inr t')
   \<and> optimize_impl ord dict (Some (Node (Const c) l r)) = Inr (Node (Const c) l r)
   \<and> (well_formed (head e) \<and> total_tree (head e) \<longrightarrow> (\<exists>e2. optimize ord e = (e2, None)))
   \<and> (well_formed (head e) \<longrightarrow>
        (\<exists>e2. optimize ord e = (e2, None)) \<or> optimize ord e = (e, Some Undefined_arithmetic))"
proof -
  have d: "(\<exists>e2. optimize ord e = (e2, None)) \<or> optimize ord e = (e, Some Undefined_arithmetic)"
    if w: "well_formed (head e)"
    using optimize_impl_defined[OF w, of ord "dictionary e"]
    by (auto simp: optimize_def)
  have r: "\<exists>e2. optimize ord e = (e2, None)" if w: "well_formed (head e)" "total_tree (head e)"
  proof -
    from optimize_impl_returns[OF w] obtain h
      where "optimize_impl ord (dictionary e) (head e) = Inr h" by blast
    then show ?thesis by (simp add: optimize_def)
  qed
  have "optimize ord e1 = (e1, None)" if o: "optimize ord e = (e1, None)"
  proof (cases "head e")
    case None
    with o show ?thesis by (auto simp: optimize_def)
  next
    case (Some h)
    with o obtain h' where h': "optimize_impl ord (dictionary e) (head e) = Inr h'"
        "e1 = e\<lparr>head := Some h'\<rparr>"
      by (auto simp: optimize_def split: sum.splits)
    from optimize_impl_idempotent[OF h'(1)] h'(2) show ?thesis
      by (simp add: optimize_def)
  qed
  then show ?thesis using optimize_impl_idempotent r d by simp
qed

theorem optimize_idempotent_witness:
  "new_expression Left_first Policy_build ''sin(cos(x))+2*3'' =
     Inr \<lparr>head = Some (Node (Binary plus_f)
              (Some (Node (Binary multiplies_f) (Some (Node (Const 3) None None))
                 (Some (Node (Const 2) None None))))
              (Some (Node (Unary sin_f)
                 (Some (Node (Unary cos_f) (Some (Node (Param CHR ''x'') None None))
                    (Some (Node Nothing None None))))
                 (Some (Node Nothing None None))))),
          dictionary = Map.empty\<rparr>
   \<and> (\<exists>e1. optimize Left_first \<lparr>head = Some (Node (Binary plus_f)
              (Some (Node (Binary multiplies_f) (Some (Node (Const 3) None None))
                 (Some (Node (Const 2) None None))))
              (Some (Node (Unary sin_f)
                 (Some (Node (Unary cos_f) (Some (Node (Param CHR ''x'') None None))
                    (Some (Node Nothing None None))))
                 (Some (Node Nothing None None))))),
          dictionary = Map.empty\<rparr> = (e1, None)
        \<and> optimize Left_first e1 = (e1, None))
   \<and> (\<exists>t'. optimize_impl Left_first Map.empty
          (Some (Node (Unary sin_f)
                 (Some (Node (Unary cos_f) (Some (Node (Param CHR ''x'') None None))
                    (Some (Node Nothing None None))))
                 (Some (Node Nothing None None)))) = Inr t'
        \<and> optimize_impl Left_first Map.empty (Some t') = Inr t')
   \<and> well_formed (Some (Node (Binary plus_f)
              (Some (Node (Binary multiplies_f) (Some (Node (Const 3) None None))
                 (Some (Node (Const 2) None None))))
              (Some (Node (Unary sin_f)
                 (Some (Node (Unary cos_f) (Some (Node (Param CHR ''x'') None None))
                    (Some (Node Nothing None None))))
                 (Some (Node Nothing None None))))))
   \<and> total_tree (Some (Node (Binary plus_f)
              (Some (Node (Binary multiplies_f) (Some (Node (Const 3) None None))
                 (Some (Node (Const 2) None None))))
              (Some (Node (Unary sin_f)
                 (Some (Node (Unary cos_f) (Some (Node (Param CHR ''x'') None None))
                    (Some (Node Nothing None None))))
                 (Some (Node Nothing None None))))))"
proof -
  let ?u = "Some (Node (Unary sin_f)
                 (Some (Node (Unary cos_f) (Some (Node (Param CHR ''x'') None None))
                    (Some (Node Nothing None None))))
                 (Some (Node Nothing None None)))"
  let ?e = "\<lparr>head = Some (Node (Binary plus_f)
              (Some (Node (Binary multiplies_f) (Some (Node (Const 3) None None))
                 (Some (Node (Const 2) None None))))
              ?u),
          dictionary = Map.empty :: param_t \<rightharpoonup> const_t\<rparr>"
  have b: "new_expression Left_first Policy_build ''sin(cos(x))+2*3'' = Inr ?e"
    by (simp add: char_defs resolver_defs builder_defs)
  have w: "well_formed (head ?e)" by simp
  have tt: "total_tree (head ?e)" by (simp add: plus_f_def multiplies_f_def)
  from optimize_idempotent[where ord = Left_first and e = ?e] w tt
  obtain e1 where o: "optimize Left_first ?e = (e1, None)" by blast
  from optimize_idempotent[where ord = Left_first and e = ?e and ?e1.0 = e1] o
  have o2: "optimize Left_first e1 = (e1, None)" by blast
  obtain t' where u: "optimize_impl Left_first Map.empty ?u = Inr t'"
    by (simp add: optimizer_defs)
  from optimize_idempotent[where ord = Left_first and dict = Map.empty and t = ?u and t' = t'] u
  have u2: "optimize_impl Left_first Map.empty (Some t') = Inr t'" by blast
  from b o o2 u u2 w tt show ?thesis by simp
qed


section \<open>Retrying a failed evaluation\<close>

text \<open>
  What holds of a retry: once every parameter of the tree is bound, evaluation succeeds
  on a tree that has all its operands and whose binary functions are defined for all
  arguments.
\<close>

lemma eval_impl_succeeds:
  "well_formed t \<Longrightarrow> total_tree t \<Longrightarrow> set (parameters t) \<subseteq> dom dict \<Longrightarrow>
   \<exists>v. eval_impl ord dict t = Inr v"
proof (induction ord dict t rule: eval_impl.induct)
  case (5 ord dict b l r)
  then obtain a c where "eval_impl ord dict r = Inr a" "eval_impl ord dict l = Inr c"
    by auto
  moreover obtain v where "b a c = Some v" using "5.prems"(2) by auto
  ultimately show ?case by (simp add: call_def)
qed (auto split: option.splits sum.splits)

text \<open>
  C6. The claim: a failed \<^verbatim>\<open>eval()\<close> leaves tree and dictionary unchanged, and after
  \<^verbatim>\<open>set_param\<close> has supplied the missing binding the same \<^verbatim>\<open>eval()\<close> succeeds. The first
  half holds: \<^verbatim>\<open>eval\<close> and \<^verbatim>\<open>eval_impl\<close> are \<^verbatim>\<open>const\<close> and only read. The second half
  fails on the code. \<^verbatim>\<open>x+\<close> builds into a \<^verbatim>\<open>+\<close> node with the left child \<open>x\<close> and no
  right child; with the left operand evaluated first, \<^verbatim>\<open>eval()\<close> throws the
  unassigned-parameter error for \<open>x\<close>, and after \<^verbatim>\<open>set_param('x', 1)\<close> the same \<^verbatim>\<open>eval()\<close>
  dereferences the null right child (with the right operand first, already the first
  \<^verbatim>\<open>eval()\<close> does). And in either order: \<^verbatim>\<open>5%x\<close> fails with the unassigned-parameter error
  for \<open>x\<close>, and after \<^verbatim>\<open>set_param('x', 0)\<close> the same \<^verbatim>\<open>eval()\<close> computes the integer
  remainder of 5 by 0, which is undefined.
\<close>

theorem retry_after_binding_fails:
  "(\<exists>e. new_expression ord Policy_build ''x+'' = Inr e
        \<and> eval Left_first e = Inl (Unassigned_parameter CHR ''x'')
        \<and> eval Left_first (set_param CHR ''x'' 1 e) = Inl Null_dereference
        \<and> eval Right_first e = Inl Null_dereference)
   \<and> (\<exists>e. new_expression ord Policy_build ''5%x'' = Inr e
        \<and> eval ord' e = Inl (Unassigned_parameter CHR ''x'')
        \<and> eval ord' (set_param CHR ''x'' 0 e) = Inl Undefined_arithmetic)"
proof -
  have a: "\<exists>e. new_expression ord Policy_build ''x+'' = Inr e
        \<and> eval Left_first e = Inl (Unassigned_parameter CHR ''x'')
        \<and> eval Left_first (set_param CHR ''x'' 1 e) = Inl Null_dereference
        \<and> eval Right_first e = Inl Null_dereference"
    by (simp add: char_defs resolver_defs builder_defs eval_defs operands_def)
  have b: "\<exists>e. new_expression ord Policy_build ''5%x'' = Inr e
        \<and> eval ord' e = Inl (Unassigned_parameter CHR ''x'')
        \<and> eval ord' (set_param CHR ''x'' 0 e) = Inl Undefined_arithmetic"
    by (simp add: char_defs resolver_defs builder_defs eval_defs function_defs)
  show ?thesis using a b by blast
qed

section \<open>Implicit multiplication\<close>

lemma find_char_None: "find_char src ch k = None \<Longrightarrow> k \<le> m \<Longrightarrow> m < length src \<Longrightarrow> src ! m \<noteq> ch"
  unfolding find_char_def by (auto simp: find_None_iff)

lemma find_char_before:
  assumes "find_char src ch k = Some j" "k \<le> m" "m < j"
  shows "src ! m \<noteq> ch"
proof -
  from assms(1) obtain i where i: "i < length [k..<length src]" "j = [k..<length src] ! i"
      "\<forall>j'<i. src ! ([k..<length src] ! j') \<noteq> ch"
    unfolding find_char_def by (auto simp: find_Some_iff)
  then have "j = k + i" by simp
  with assms have "m - k < i" by simp
  with i(3) have "src ! ([k..<length src] ! (m - k)) \<noteq> ch" by blast
  moreover have "[k..<length src] ! (m - k) = m" using assms i by simp
  ultimately show ?thesis by simp
qed

lemma scanned_skip:
  "k \<le> j \<Longrightarrow> j \<le> length src \<Longrightarrow> (\<And>m. k \<le> m \<Longrightarrow> m < j \<Longrightarrow> src ! m \<noteq> CHR ''('')
   \<Longrightarrow> scanned src k = scanned src j"
proof (induction "j - k" arbitrary: k)
  case 0
  then show ?case by simp
next
  case (Suc d)
  then have k: "k < j" "k < length src" by auto
  have nk: "src ! k \<noteq> CHR ''(''" using Suc.prems(3)[of k] k by simp
  have "drop k src = src ! k # drop (Suc k) src"
    using k by (simp add: Cons_nth_drop_Suc)
  then have "scanned src k = scanned src (Suc k)"
    using nk k by (simp add: scanned_def take_Suc_conv_app_nth)
  moreover have "scanned src (Suc k) = scanned src j"
    using Suc by auto
  ultimately show ?case by simp
qed

lemma scanned_length: "scanned src (length src) = src"
  by (simp add: scanned_def)

lemma find_char_insert_at:
  assumes "i < length src" "src ! i = ch"
  shows "find_char (insert_at src i c) ch (i + 1) = Some (i + 1)"
proof -
  have "insert_at src i c ! (i + 1) = ch"
    using assms by (simp add: insert_at_def nth_append Cons_nth_drop_Suc[symmetric])
  moreover have "[i + 1 ..< length (insert_at src i c)] = (i + 1) # [i + 2 ..< length (insert_at src i c)]"
    using assms by (simp add: insert_at_def upt_conv_Cons)
  ultimately show ?thesis by (simp add: find_char_def)
qed

lemma preparse_loop_scanned:
  "1 \<le> i \<Longrightarrow> i < length src \<Longrightarrow> src ! i = CHR ''('' \<Longrightarrow>
   preparse_loop (Some i) src = scanned src i"
proof (induction "Some i" src arbitrary: i rule: preparse_loop.induct)
  case (2 i src)
  note i = "2.prems"
  have dr: "drop i src = CHR ''('' # drop (Suc i) src"
    using i by (simp add: Cons_nth_drop_Suc[symmetric])
  show ?case
  proof (cases "src ! (i - 1) = CHR '')'' \<or> isdigit (src ! (i - 1))")
    case True
    let ?s = "insert_at src i CHR ''*''"
    have f: "find_char ?s CHR ''('' (i + 1) = Some (i + 1)"
      using find_char_insert_at[of i src "CHR ''(''" "CHR ''*''"] i by simp
    have len: "length ?s = Suc (length src)" by (simp add: insert_at_def)
    have nth: "?s ! (i + 1) = CHR ''(''"
      using find_char_Some[OF f] by simp
    have "preparse_loop (Some (i + 1)) ?s = scanned ?s (i + 1)"
      using "2.hyps"(1)[OF True f] i len nth by simp
    moreover have "scanned ?s (i + 1) = scanned src i"
      using i True dr by (simp add: scanned_def insert_at_def isdigit_def nth_append)
    ultimately show ?thesis using True f by simp
  next
    case False
    have step: "scanned src i = scanned src (Suc i)"
      using i False dr by (simp add: scanned_def take_Suc_conv_app_nth)
    show ?thesis
    proof (cases "find_char src CHR ''('' (i + 1)")
      case None
      have "scanned src (Suc i) = scanned src (length src)"
        using i find_char_None[OF None] by (intro scanned_skip) auto
      then show ?thesis using False None step by (simp add: scanned_length)
    next
      case (Some j)
      note fj = find_char_Some[OF Some]
      have "preparse_loop (Some j) src = scanned src j"
        using "2.hyps"(2)[OF False Some] fj by simp
      moreover have "scanned src (Suc i) = scanned src j"
        using fj find_char_before[OF Some] by (intro scanned_skip) auto
      ultimately show ?thesis using False Some step by simp
    qed
  qed
qed

lemma preparse_scanned: "src \<noteq> [] \<Longrightarrow> preparse src = scanned src 1"
proof (cases "find_char src CHR ''('' 1")
  case None
  assume "src \<noteq> []"
  then have "scanned src 1 = scanned src (length src)"
    using find_char_None[OF None] by (intro scanned_skip) (auto simp: Suc_le_eq)
  then show ?thesis using None by (simp add: preparse_def scanned_length)
next
  case (Some j)
  note fj = find_char_Some[OF Some]
  have "preparse_loop (Some j) src = scanned src j"
    using preparse_loop_scanned[of j src] fj by simp
  moreover have "scanned src 1 = scanned src j"
    using fj find_char_before[OF Some] by (intro scanned_skip) auto
  ultimately show ?thesis using Some by (simp add: preparse_def)
qed

text \<open>
  C7. \<^verbatim>\<open>preparse\<close> returns its text with a multiplication sign put between a closing
  parenthesis or a digit and an opening parenthesis that follows at once, and changes
  nothing else: the index loop of the source computes \<open>implicit_multiplication\<close>. So
  \<^verbatim>\<open>2(3+4)\<close> becomes \<^verbatim>\<open>2*(3+4)\<close> and evaluates to 14, and \<^verbatim>\<open>(1+1)(2+2)\<close> becomes
  \<^verbatim>\<open>(1+1)*(2+2)\<close> and evaluates to 8.
\<close>

theorem implicit_multiplication_inserted:
  "preparse [] = []
   \<and> preparse (c # cs) = c # implicit_multiplication c cs
   \<and> preparse ''2(3+4)'' = ''2*(3+4)''
   \<and> compute ord ''2(3+4)'' = Inr (Some 14)
   \<and> preparse ''(1+1)(2+2)'' = ''(1+1)*(2+2)''
   \<and> compute ord ''(1+1)(2+2)'' = Inr (Some 8)"
proof -
  have 1: "preparse [] = []"
    by (simp add: preparse_def find_char_def)
  have 2: "preparse (c # cs) = c # implicit_multiplication c cs"
    using preparse_scanned[of "c # cs"] by (simp add: scanned_def)
  have 3: "preparse ''2(3+4)'' = ''2*(3+4)''"
    by (simp add: char_defs resolver_defs)
  have 4: "compute ord ''2(3+4)'' = Inr (Some 14)"
    by (simp add: char_defs resolver_defs builder_defs eval_defs function_defs)
  have 5: "preparse ''(1+1)(2+2)'' = ''(1+1)*(2+2)''"
    by (simp add: char_defs resolver_defs)
  have 6: "compute ord ''(1+1)(2+2)'' = Inr (Some 8)"
    by (simp add: char_defs resolver_defs builder_defs eval_defs function_defs)
  show ?thesis using 1 2 3 4 5 6 by blast
qed

end

